theory Spec2Isabelle
  imports Complex_Main "HOL-Library.Word"
begin

section \<open>codex-shimmer: the cache loader and the shimmer renderer\<close>

text \<open>
  A shallow embedding of \<^verbatim>\<open>src/cffi/codex_shimmer/main.c\<close>. The C file is a Waybar
  plugin built on GLib, json-glib, GTK, Pango and cairo. Every call into one of those
  libraries is a field of the record \<open>world\<close> below (the file system, the JSON parser,
  the clock, the font metrics), so that the functions of \<^verbatim>\<open>main.c\<close> become pure
  functions of the world and of the instance. A C \<^verbatim>\<open>double\<close> is modelled as a
  \<open>real\<close>: rounding, infinities and NaN are outside the model. Logging calls
  (\<^verbatim>\<open>g_message\<close>, \<^verbatim>\<open>g_warning\<close>) and memory management have no counterpart.
\<close>

subsection \<open>JSON nodes (json-glib)\<close>

text \<open>
  A \<^verbatim>\<open>JsonNode\<close> is a value (\<^verbatim>\<open>gint64\<close>, \<^verbatim>\<open>double\<close>, boolean or string), an array,
  an object or null. A \<^verbatim>\<open>JsonObject\<close> keeps one node per member name; it is written
  as an association list that is read by name.
\<close>

datatype json =
    JNull
  | JBool bool
  | JInt int
  | JDouble real
  | JString string
  | JArray "json list"
  | JObject "(string \<times> json) list"

text \<open>A possibly null \<^verbatim>\<open>JsonNode *\<close> is a \<open>json option\<close>.\<close>

fun json_node_is_number :: "json option \<Rightarrow> bool" where
  "json_node_is_number (Some (JInt i)) = True"
| "json_node_is_number (Some (JDouble d)) = True"
| "json_node_is_number _ = False"

fun json_node_is_string :: "json option \<Rightarrow> bool" where
  "json_node_is_string (Some (JString s)) = True"
| "json_node_is_string _ = False"

text \<open>
  The accessors of json-glib that \<^verbatim>\<open>main.c\<close> calls. \<^verbatim>\<open>json_node_get_string\<close> is
  \<^verbatim>\<open>NULL\<close> on a node that holds no string; \<^verbatim>\<open>json_node_get_double\<close> converts an
  integer. \<^verbatim>\<open>json_node_get_int\<close> returns a \<^verbatim>\<open>gint64\<close>: it converts a double by
  truncation towards zero. C leaves that conversion undefined when the truncated value
  is no \<^verbatim>\<open>gint64\<close>; it is modelled as the conversion instruction of x86-64 performs it,
  which then gives the least \<^verbatim>\<open>gint64\<close>.
\<close>

definition G_MININT64 :: int where
  "G_MININT64 = - 9223372036854775808"

definition G_MAXINT64 :: int where
  "G_MAXINT64 = 9223372036854775807"

definition double_to_gint64 :: "real \<Rightarrow> int" where
  "double_to_gint64 d =
     (let t = (if 0 \<le> d then \<lfloor>d\<rfloor> else \<lceil>d\<rceil>)
      in if G_MININT64 \<le> t \<and> t \<le> G_MAXINT64 then t else G_MININT64)"

fun json_node_get_string :: "json \<Rightarrow> string option" where
  "json_node_get_string (JString s) = Some s"
| "json_node_get_string _ = None"

fun json_node_get_double :: "json \<Rightarrow> real" where
  "json_node_get_double (JDouble d) = d"
| "json_node_get_double (JInt i) = real_of_int i"
| "json_node_get_double (JBool b) = (if b then 1 else 0)"
| "json_node_get_double _ = 0"

fun json_node_get_int :: "json \<Rightarrow> int" where
  "json_node_get_int (JInt i) = i"
| "json_node_get_int (JDouble d) = double_to_gint64 d"
| "json_node_get_int (JBool b) = (if b then 1 else 0)"
| "json_node_get_int _ = 0"

definition json_object_has_member :: "(string \<times> json) list \<Rightarrow> string \<Rightarrow> bool" where
  "json_object_has_member obj name = (map_of obj name \<noteq> None)"

definition json_object_get_member :: "(string \<times> json) list \<Rightarrow> string \<Rightarrow> json option" where
  "json_object_get_member obj name = map_of obj name"

definition json_object_get_string_member :: "(string \<times> json) list \<Rightarrow> string \<Rightarrow> string option" where
  "json_object_get_string_member obj name =
     (case map_of obj name of None \<Rightarrow> None | Some node \<Rightarrow> json_node_get_string node)"

subsection \<open>The macros of GLib\<close>

definition glib_MAX :: "'a::linorder \<Rightarrow> 'a \<Rightarrow> 'a" where
  "glib_MAX a b = (if a > b then a else b)"

definition glib_CLAMP :: "'a::linorder \<Rightarrow> 'a \<Rightarrow> 'a \<Rightarrow> 'a" where
  "glib_CLAMP x low high = (if x > high then high else if x < low then low else x)"

definition G_MAXUINT :: int where
  "G_MAXUINT = 4294967295"

subsection \<open>The instance and its surroundings\<close>

record GdkRGBA =
  red :: real
  green :: real
  blue :: real
  alpha :: real

text \<open>
  What the libraries answer at the moment of a call: the home directory, the joining
  of file names, the parser (\<open>None\<close> when it rejects the text; a document without a
  root node is read as \<open>JNull\<close>, which \<^verbatim>\<open>JSON_NODE_HOLDS_OBJECT\<close> rejects just
  the same), the content of a file (\<open>None\<close> when it cannot be read), the colour parser
  (\<open>None\<close> when it fails), whether a file monitor can be created, the pixel size of a laid-out
  text (the flag says whether the bold attribute is set), the number of UTF-8 characters
  of a text, the monotonic clock in microseconds, the height allotted to the widget,
  the style classes that GTK itself gives to a new box, and the identifier of a new timer.
  The clock does not advance within one call of a function of \<^verbatim>\<open>main.c\<close>.
\<close>

record world =
  g_get_home_dir :: string
  g_build_filename :: "string list \<Rightarrow> string"
  json_parser_load_from_data :: "string \<Rightarrow> json option"
  g_file_get_contents :: "string \<Rightarrow> string option"
  gdk_rgba_parse :: "string \<Rightarrow> GdkRGBA option"
  g_file_monitor_file :: "string \<Rightarrow> bool"
  pango_layout_get_pixel_size :: "bool \<Rightarrow> string \<Rightarrow> int \<times> int"
  g_utf8_strlen :: "string \<Rightarrow> int"
  g_get_monotonic_time :: "64 word"
  alloc_height :: int
  gtk_box_style_classes :: "string set"
  g_timeout_add :: "nat \<Rightarrow> nat"

text \<open>
  The struct \<^verbatim>\<open>CodexShimmer\<close>. A \<^verbatim>\<open>gchar *\<close> that may be \<^verbatim>\<open>NULL\<close> is a
  \<open>string option\<close>. The last five fields are the state that the instance keeps inside
  its two GTK widgets: the style classes of the container, the tooltip and the size
  request of the drawing area, and the pending resize and redraw requests.
\<close>

record CodexShimmer =
  cache_path :: "string option"
  text_plain :: "string option"
  tooltip_text :: "string option"
  style_classes :: "string list"
  base_rgba :: GdkRGBA
  highlight_rgba :: GdkRGBA
  period_ms :: real
  width_chars :: real
  cycles :: real
  tick_ms :: nat
  pause_ms :: real
  highlight_alpha :: real
  base_alpha :: real
  timeout_id :: nat
  monitor :: bool
  start_time_us :: "64 word"
  container_classes :: "string set"
  widget_tooltip :: "string option"
  size_request :: "int \<times> int"
  resize_queued :: bool
  draw_queued :: bool

subsection \<open>Tooltip and style classes\<close>

definition update_tooltip :: "CodexShimmer \<Rightarrow> CodexShimmer" where
  "update_tooltip inst = inst\<lparr>widget_tooltip := tooltip_text inst\<rparr>"

text \<open>The loop of \<^verbatim>\<open>free_style_classes\<close> over the stored classes.\<close>

fun remove_classes :: "string list \<Rightarrow> string set \<Rightarrow> string set" where
  "remove_classes [] ctx = ctx"
| "remove_classes (cl # rest) ctx = remove_classes rest (ctx - {cl})"

definition free_style_classes :: "CodexShimmer \<Rightarrow> CodexShimmer" where
  "free_style_classes inst =
     inst\<lparr>container_classes := remove_classes (style_classes inst) (container_classes inst),
          style_classes := []\<rparr>"

text \<open>The loop of \<^verbatim>\<open>update_style_classes\<close> over the elements of the array.\<close>

fun add_classes :: "json list \<Rightarrow> CodexShimmer \<Rightarrow> CodexShimmer" where
  "add_classes [] inst = inst"
| "add_classes (node # rest) inst =
     (if \<not> json_node_is_string (Some node) then add_classes rest inst
      else (case json_node_get_string node of
              None \<Rightarrow> add_classes rest inst
            | Some cl \<Rightarrow>
                add_classes rest
                  (inst\<lparr>container_classes := insert cl (container_classes inst),
                        style_classes := style_classes inst @ [cl]\<rparr>)))"

definition update_style_classes :: "CodexShimmer \<Rightarrow> json list option \<Rightarrow> CodexShimmer" where
  "update_style_classes inst classes =
     (let inst1 = free_style_classes inst
      in case classes of None \<Rightarrow> inst1 | Some elems \<Rightarrow> add_classes elems inst1)"

subsection \<open>Loading the cache file\<close>

definition placeholder_text :: string where
  "placeholder_text = ''Waiting for Codex'' @ [CHR 0xE2, CHR 0x80, CHR 0xA6]"

text \<open>
  \<^verbatim>\<open>load_cache\<close> returns \<^verbatim>\<open>FALSE\<close> from three places (the file cannot be read, the
  parser rejects it, the root holds no object) and \<^verbatim>\<open>TRUE\<close> at its end.
  \<open>read_cache_file\<close> is the call of line 478 on the stored path, which fails on a
  \<^verbatim>\<open>NULL\<close> path.
\<close>

definition read_cache_file :: "world \<Rightarrow> CodexShimmer \<Rightarrow> string option" where
  "read_cache_file w inst =
     (case cache_path inst of None \<Rightarrow> None | Some p \<Rightarrow> g_file_get_contents w p)"

definition load_cache :: "world \<Rightarrow> CodexShimmer \<Rightarrow> bool \<times> CodexShimmer" where
  "load_cache w inst =
     (case read_cache_file w inst of
        None \<Rightarrow> (False, inst)
      | Some contents \<Rightarrow>
          (case json_parser_load_from_data w contents of
             None \<Rightarrow> (False, inst)
           | Some (JObject obj) \<Rightarrow>
               (let text = (if json_object_has_member obj ''text''
                            then json_object_get_string_member obj ''text'' else None);
                    tooltip = (if json_object_has_member obj ''tooltip''
                               then json_object_get_string_member obj ''tooltip'' else None);
                    classes_node = (if json_object_has_member obj ''class''
                                    then json_object_get_member obj ''class'' else None);
                    classes = (case classes_node of Some (JArray elems) \<Rightarrow> Some elems | _ \<Rightarrow> None);
                    classes = (if classes = None \<and> classes_node \<noteq> None \<and> json_node_is_string classes_node
                               then (case classes_node of
                                       Some (JString s) \<Rightarrow> Some [JString s]
                                     | _ \<Rightarrow> classes)
                               else classes);
                    new_text = (case text of Some t \<Rightarrow> t | None \<Rightarrow> placeholder_text);
                    inst1 = inst\<lparr>text_plain := Some new_text\<rparr>;
                    inst2 = update_tooltip (inst1\<lparr>tooltip_text := tooltip\<rparr>);
                    inst3 = update_style_classes inst2 classes;
                    (width_px, height_px) = pango_layout_get_pixel_size w False new_text;
                    inst4 = inst3\<lparr>size_request := (glib_MAX (width_px + 16) 80, height_px + 8),
                                 resize_queued := True\<rparr>;
                    inst5 = inst4\<lparr>start_time_us := g_get_monotonic_time w, draw_queued := True\<rparr>
                in (True, inst5))
           | Some _ \<Rightarrow> (False, inst)))"

subsection \<open>Reading the configuration\<close>

definition default_cache_path :: "world \<Rightarrow> string" where
  "default_cache_path w =
     (let home = g_get_home_dir w
      in g_build_filename w [home, ''.cache'', ''codex-shimmer'', ''latest.json''])"

definition parse_json_value :: "world \<Rightarrow> string option \<Rightarrow> json option" where
  "parse_json_value w v =
     (case v of None \<Rightarrow> None | Some str \<Rightarrow> json_parser_load_from_data w str)"

text \<open>\<^verbatim>\<open>path[0] == '~'\<close> is false on the empty string; \<^verbatim>\<open>path + 1\<close> drops one character.\<close>

definition expand_user_path :: "world \<Rightarrow> string option \<Rightarrow> string option" where
  "expand_user_path w path =
     (case path of
        None \<Rightarrow> None
      | Some p \<Rightarrow>
          (if take 1 p = ''~''
           then (let home = g_get_home_dir w in Some (g_build_filename w [home, drop 1 p]))
           else Some p))"

definition json_node_get_double_or :: "json option \<Rightarrow> real \<Rightarrow> real" where
  "json_node_get_double_or node fallback =
     (if \<not> json_node_is_number node then fallback
      else (case node of None \<Rightarrow> fallback | Some n \<Rightarrow> json_node_get_double n))"

definition json_node_get_uint_or :: "json option \<Rightarrow> nat \<Rightarrow> nat" where
  "json_node_get_uint_or node fallback =
     (if \<not> json_node_is_number node then fallback
      else (case node of
              None \<Rightarrow> fallback
            | Some n \<Rightarrow> nat (glib_CLAMP (json_node_get_int n) 0 G_MAXUINT)))"

text \<open>The entries of the configuration are pairs of a key and a value, neither \<^verbatim>\<open>NULL\<close>.\<close>

fun config_lookup :: "(string \<times> string) list \<Rightarrow> string \<Rightarrow> string option" where
  "config_lookup [] key = None"
| "config_lookup ((k, v) # entries) key = (if k = key then Some v else config_lookup entries key)"

definition setup_monitor :: "world \<Rightarrow> CodexShimmer \<Rightarrow> bool \<times> CodexShimmer" where
  "setup_monitor w inst =
     (let inst1 = (if monitor inst then inst\<lparr>monitor := False\<rparr> else inst);
          inst2 = inst1\<lparr>monitor := (case cache_path inst1 of
                                       None \<Rightarrow> False
                                     | Some p \<Rightarrow> g_file_monitor_file w p)\<rparr>
      in if \<not> monitor inst2 then (False, inst2) else (True, inst2))"

subsection \<open>Initialisation\<close>

text \<open>
  \<^verbatim>\<open>wbcffi_init\<close> is cut into its stages, in the order of the source: the zeroed
  struct with its defaults, one block per configuration key, the clamps, and the start
  (widgets, epoch, monitor, first load, timer).
\<close>

text \<open>\<^verbatim>\<open>gdk_rgba_parse\<close> writes the colour only when it succeeds.\<close>

definition rgba_parse_into :: "world \<Rightarrow> GdkRGBA \<Rightarrow> string \<Rightarrow> GdkRGBA" where
  "rgba_parse_into w rgba str = (case gdk_rgba_parse w str of None \<Rightarrow> rgba | Some c \<Rightarrow> c)"

definition g_new0 :: CodexShimmer where
  "g_new0 =
     \<lparr>cache_path = None, text_plain = None, tooltip_text = None, style_classes = [],
      base_rgba = \<lparr>red = 0, green = 0, blue = 0, alpha = 0\<rparr>,
      highlight_rgba = \<lparr>red = 0, green = 0, blue = 0, alpha = 0\<rparr>,
      period_ms = 0, width_chars = 0, cycles = 0, tick_ms = 0, pause_ms = 0,
      highlight_alpha = 0, base_alpha = 0, timeout_id = 0, monitor = False,
      start_time_us = 0, container_classes = {}, widget_tooltip = None,
      size_request = (-1, -1), resize_queued = False, draw_queued = False\<rparr>"

definition init_defaults :: "world \<Rightarrow> CodexShimmer" where
  "init_defaults w =
     (let inst = g_new0\<lparr>period_ms := 1600, width_chars := 4, cycles := 1, tick_ms := 33,
                        pause_ms := 500, highlight_alpha := 0.35, base_alpha := 1,
                        style_classes := []\<rparr>;
          inst = inst\<lparr>base_rgba := rgba_parse_into w (base_rgba inst) ''#C7D3FF''\<rparr>;
          inst = inst\<lparr>highlight_rgba := rgba_parse_into w (highlight_rgba inst) ''#FFFFFF''\<rparr>
      in inst\<lparr>highlight_rgba := (highlight_rgba inst)\<lparr>alpha := highlight_alpha inst\<rparr>\<rparr>)"

definition configure_cache_path :: "world \<Rightarrow> (string \<times> string) list \<Rightarrow> CodexShimmer \<Rightarrow> CodexShimmer" where
  "configure_cache_path w entries inst =
     (let inst1 =
            (case config_lookup entries ''cache_path'' of
               None \<Rightarrow> inst
             | Some cfg \<Rightarrow>
                 (let node = parse_json_value w (Some cfg)
                  in if json_node_is_string node
                     then (case expand_user_path w (case node of None \<Rightarrow> None
                                                    | Some n \<Rightarrow> json_node_get_string n) of
                             None \<Rightarrow> inst
                           | Some tmp \<Rightarrow> inst\<lparr>cache_path := Some tmp\<rparr>)
                     else inst))
      in if cache_path inst1 = None then inst1\<lparr>cache_path := Some (default_cache_path w)\<rparr>
         else inst1)"

definition configure_period_ms :: "world \<Rightarrow> (string \<times> string) list \<Rightarrow> CodexShimmer \<Rightarrow> CodexShimmer" where
  "configure_period_ms w entries inst =
     (case config_lookup entries ''period_ms'' of
        None \<Rightarrow> inst
      | Some cfg \<Rightarrow>
          (let node = parse_json_value w (Some cfg)
           in inst\<lparr>period_ms := json_node_get_double_or node (period_ms inst)\<rparr>))"

definition configure_width_chars :: "world \<Rightarrow> (string \<times> string) list \<Rightarrow> CodexShimmer \<Rightarrow> CodexShimmer" where
  "configure_width_chars w entries inst =
     (case config_lookup entries ''width_chars'' of
        Some cfg \<Rightarrow>
          (let node = parse_json_value w (Some cfg)
           in inst\<lparr>width_chars := json_node_get_double_or node (width_chars inst)\<rparr>)
      | None \<Rightarrow>
          (case config_lookup entries ''width'' of
             None \<Rightarrow> inst
           | Some cfg \<Rightarrow>
               (let node = parse_json_value w (Some cfg)
                in inst\<lparr>width_chars := json_node_get_double_or node (width_chars inst)\<rparr>)))"

definition configure_pause_ms :: "world \<Rightarrow> (string \<times> string) list \<Rightarrow> CodexShimmer \<Rightarrow> CodexShimmer" where
  "configure_pause_ms w entries inst =
     (case config_lookup entries ''pause_ms'' of
        None \<Rightarrow> inst
      | Some cfg \<Rightarrow>
          (let node = parse_json_value w (Some cfg)
           in inst\<lparr>pause_ms := json_node_get_double_or node (pause_ms inst)\<rparr>))"

definition configure_cycles :: "world \<Rightarrow> (string \<times> string) list \<Rightarrow> CodexShimmer \<Rightarrow> CodexShimmer" where
  "configure_cycles w entries inst =
     (case config_lookup entries ''cycles'' of
        None \<Rightarrow> inst
      | Some cfg \<Rightarrow>
          (let node = parse_json_value w (Some cfg)
           in inst\<lparr>cycles := json_node_get_double_or node (cycles inst)\<rparr>))"

definition configure_tick_ms :: "world \<Rightarrow> (string \<times> string) list \<Rightarrow> CodexShimmer \<Rightarrow> CodexShimmer" where
  "configure_tick_ms w entries inst =
     (case config_lookup entries ''tick_ms'' of
        None \<Rightarrow> inst
      | Some cfg \<Rightarrow>
          (let node = parse_json_value w (Some cfg)
           in inst\<lparr>tick_ms := json_node_get_uint_or node (tick_ms inst)\<rparr>))"

definition configure_base_color :: "world \<Rightarrow> (string \<times> string) list \<Rightarrow> CodexShimmer \<Rightarrow> CodexShimmer" where
  "configure_base_color w entries inst =
     (case config_lookup entries ''base_color'' of
        None \<Rightarrow> inst
      | Some cfg \<Rightarrow>
          (case parse_json_value w (Some cfg) of
             Some (JString str) \<Rightarrow> inst\<lparr>base_rgba := rgba_parse_into w (base_rgba inst) str\<rparr>
           | _ \<Rightarrow> inst))"

definition configure_highlight_color :: "world \<Rightarrow> (string \<times> string) list \<Rightarrow> CodexShimmer \<Rightarrow> CodexShimmer" where
  "configure_highlight_color w entries inst =
     (case config_lookup entries ''highlight_color'' of
        None \<Rightarrow> inst
      | Some cfg \<Rightarrow>
          (case parse_json_value w (Some cfg) of
             Some (JString str) \<Rightarrow>
               inst\<lparr>highlight_rgba := rgba_parse_into w (highlight_rgba inst) str\<rparr>
           | _ \<Rightarrow> inst))"

definition configure_highlight_alpha :: "world \<Rightarrow> (string \<times> string) list \<Rightarrow> CodexShimmer \<Rightarrow> CodexShimmer" where
  "configure_highlight_alpha w entries inst =
     (case config_lookup entries ''highlight_alpha'' of
        None \<Rightarrow> inst
      | Some cfg \<Rightarrow>
          (let node = parse_json_value w (Some cfg)
           in inst\<lparr>highlight_alpha :=
                     glib_CLAMP (json_node_get_double_or node (highlight_alpha inst)) 0 1\<rparr>))"

definition configure_base_alpha :: "world \<Rightarrow> (string \<times> string) list \<Rightarrow> CodexShimmer \<Rightarrow> CodexShimmer" where
  "configure_base_alpha w entries inst =
     (case config_lookup entries ''base_alpha'' of
        None \<Rightarrow> inst
      | Some cfg \<Rightarrow>
          (let node = parse_json_value w (Some cfg)
           in inst\<lparr>base_alpha :=
                     glib_CLAMP (json_node_get_double_or node (base_alpha inst)) 0 1\<rparr>))"

definition init_clamp :: "CodexShimmer \<Rightarrow> CodexShimmer" where
  "init_clamp inst =
     (let inst = inst\<lparr>period_ms := glib_MAX (period_ms inst) 200\<rparr>;
          inst = inst\<lparr>width_chars := glib_CLAMP (width_chars inst) 1 20\<rparr>;
          inst = inst\<lparr>cycles := glib_CLAMP (cycles inst) 0.1 6\<rparr>;
          inst = inst\<lparr>tick_ms := glib_CLAMP (tick_ms inst) 5 1000\<rparr>;
          inst = inst\<lparr>pause_ms := glib_MAX (pause_ms inst) 0\<rparr>;
          inst = inst\<lparr>highlight_rgba := (highlight_rgba inst)\<lparr>alpha := highlight_alpha inst\<rparr>\<rparr>
      in inst\<lparr>base_rgba := (base_rgba inst)\<lparr>alpha := base_alpha inst\<rparr>\<rparr>)"

definition init_config :: "world \<Rightarrow> (string \<times> string) list \<Rightarrow> CodexShimmer" where
  "init_config w entries =
     init_clamp
       (configure_base_alpha w entries
       (configure_highlight_alpha w entries
       (configure_highlight_color w entries
       (configure_base_color w entries
       (configure_tick_ms w entries
       (configure_cycles w entries
       (configure_pause_ms w entries
       (configure_width_chars w entries
       (configure_period_ms w entries
       (configure_cache_path w entries (init_defaults w)))))))))))"

text \<open>
  The end of \<^verbatim>\<open>wbcffi_init\<close>: the box gets its widgets, the epoch is set, the monitor
  is set up, the cache is loaded for the first time (the result of the load is not
  looked at) and the timer is started.
\<close>

definition wbcffi_init :: "world \<Rightarrow> (string \<times> string) list \<Rightarrow> CodexShimmer" where
  "wbcffi_init w config_entries =
     (let inst = init_config w config_entries;
          inst = inst\<lparr>container_classes := gtk_box_style_classes w\<rparr>;
          inst = inst\<lparr>start_time_us := g_get_monotonic_time w\<rparr>;
          inst = snd (setup_monitor w inst);
          inst = snd (load_cache w inst)
      in inst\<lparr>timeout_id := g_timeout_add w (tick_ms inst)\<rparr>)"

text \<open>
  \<^verbatim>\<open>wbcffi_refresh\<close> on an instance that is not \<^verbatim>\<open>NULL\<close>: the cache is loaded again
  and the result of the load is not looked at. \<open>refreshes\<close> is the instance after one
  refresh in each world of a list, in the order of the list.
\<close>

definition wbcffi_refresh :: "world \<Rightarrow> CodexShimmer \<Rightarrow> CodexShimmer" where
  "wbcffi_refresh w inst = snd (load_cache w inst)"

fun refreshes :: "world list \<Rightarrow> CodexShimmer \<Rightarrow> CodexShimmer" where
  "refreshes [] inst = inst"
| "refreshes (w # ws) inst = refreshes ws (wbcffi_refresh w inst)"

subsection \<open>Drawing\<close>

text \<open>
  What \<^verbatim>\<open>on_draw\<close> does to the cairo context, as a list. \<open>ShowLayout x y c\<close>: the
  layout is shown at \<open>(x, y)\<close> with the source colour \<open>c\<close> and the operator
  \<^verbatim>\<open>OVER\<close>. \<open>PaintPattern x y g0 g1 stops\<close>: the linear pattern from \<open>g0\<close> to
  \<open>g1\<close> with the colour stops \<open>stops\<close> is painted at \<open>(x, y)\<close> with the operator
  \<^verbatim>\<open>SCREEN\<close>, clipped to the path of the layout. \<open>ColorStop offset r g b a\<close> is one
  call of \<^verbatim>\<open>cairo_pattern_add_color_stop_rgba\<close>.
\<close>

datatype color_stop = ColorStop real real real real real

datatype paint_op =
    ShowLayout real real GdkRGBA
  | PaintPattern real real real real "color_stop list"

text \<open>
  \<^verbatim>\<open>fmod\<close> of the C library: the quotient is truncated towards zero. The C function
  gives NaN for a zero divisor; the renderer is only reached with a divisor that is at
  least 200, see \<open>init_clamp\<close>.
\<close>

definition fmod :: "real \<Rightarrow> real \<Rightarrow> real" where
  "fmod x y = x - y * real_of_int (if 0 \<le> x / y then \<lfloor>x / y\<rfloor> else \<lceil>x / y\<rceil>)"

text \<open>Line 372: unsigned 64-bit subtraction, then division by \<^verbatim>\<open>1000.0\<close>.\<close>

definition elapsed_ms :: "world \<Rightarrow> CodexShimmer \<Rightarrow> real" where
  "elapsed_ms w inst = real (unat (g_get_monotonic_time w - start_time_us inst)) / 1000"

text \<open>Lines 373 and 374.\<close>

definition cycle_pos :: "CodexShimmer \<Rightarrow> real \<Rightarrow> real" where
  "cycle_pos inst elapsed =
     (let total_cycle = period_ms inst + pause_ms inst in fmod elapsed total_cycle)"

text \<open>Line 385.\<close>

definition envelope :: "real \<Rightarrow> real" where
  "envelope phase = (if phase < 0.5 then phase * 2 else (1 - phase) * 2)"

text \<open>Lines 389 to 391.\<close>

definition center_px :: "real \<Rightarrow> real \<Rightarrow> real \<Rightarrow> real" where
  "center_px width_px layout_width_px phase =
     (let start_offset = - width_px;
          travel = layout_width_px + width_px * 2
      in start_offset + phase * travel)"

definition steps :: int where
  "steps = 96"

text \<open>The loop of lines 401 to 411, from the counter \<open>i\<close> on.\<close>

function add_color_stops ::
  "CodexShimmer \<Rightarrow> real \<Rightarrow> real \<Rightarrow> real \<Rightarrow> real \<Rightarrow> real \<Rightarrow> int \<Rightarrow> color_stop list" where
  "add_color_stops inst gradient_start gradient_end center width_px env i =
     (if i \<le> steps
      then (let offset = real_of_int i / real_of_int steps;
                px = gradient_start + offset * (gradient_end - gradient_start);
                delta = (px - center) / width_px;
                gaussian = exp (- 0.5 * delta * delta);
                a = highlight_alpha inst * env * gaussian;
                a = glib_CLAMP a 0 1
            in ColorStop offset (red (highlight_rgba inst)) (green (highlight_rgba inst))
                 (blue (highlight_rgba inst)) a
               # add_color_stops inst gradient_start gradient_end center width_px env (i + 1))
      else [])"
  by pat_completeness auto
termination
  by (relation "measure (\<lambda>(inst, gs, ge, c, wp, e, i). nat (steps + 1 - i))") auto

declare add_color_stops.simps [simp del]

definition on_draw :: "world \<Rightarrow> CodexShimmer \<Rightarrow> bool \<times> paint_op list" where
  "on_draw w inst =
     (case text_plain inst of
        None \<Rightarrow> (False, [])
      | Some text \<Rightarrow>
          (let (layout_width_px, layout_height_px) = pango_layout_get_pixel_size w True text
           in if layout_width_px \<le> 0 then (True, [])
              else
                (let x = 0;
                     y = real_of_int (alloc_height w - layout_height_px) / 2;
                     base_pass = ShowLayout x y (base_rgba inst);
                     cycle_pos = cycle_pos inst (elapsed_ms w inst)
                 in if cycle_pos \<ge> period_ms inst \<or> highlight_alpha inst \<le> 0
                    then (True, [base_pass])
                    else
                      (let glyphs = glib_MAX 1 (g_utf8_strlen w text);
                           avg_char_width =
                             (if glyphs > 0 then real_of_int layout_width_px / real_of_int glyphs
                              else real_of_int layout_width_px);
                           base_width = glib_MAX (avg_char_width * width_chars inst) avg_char_width;
                           phase = cycle_pos / period_ms inst;
                           envelope = envelope phase;
                           width_px = glib_MAX (avg_char_width * 0.6) (base_width * envelope);
                           width_px = glib_MAX width_px (avg_char_width * 0.6);
                           center_px = center_px width_px (real_of_int layout_width_px) phase;
                           gradient_start = center_px - width_px * 2;
                           gradient_end = center_px + width_px * 2;
                           gradient_end = (if gradient_end \<le> gradient_start
                                           then gradient_start + 1 else gradient_end);
                           pattern = add_color_stops inst gradient_start gradient_end center_px
                                       width_px envelope 0
                       in (True, [base_pass,
                                  PaintPattern x y gradient_start gradient_end pattern])))))"

subsection \<open>A world and an instance for the examples\<close>

text \<open>
  \<open>join_path\<close> stands for \<^verbatim>\<open>g_build_filename\<close> in the examples: the elements are
  joined by one separator, and the separators that begin a later element are dropped.
  \<open>test_world\<close> has the home directory \<^verbatim>\<open>/home/u\<close>, a parser given by a table, one
  content for every file, a clock reading, and a font in which every byte is 8 pixels
  wide and 16 pixels high. \<open>file_world\<close> is the world whose files hold a given text
  that the parser reads as a given node. \<open>test_instance\<close> is an instance that has
  loaded a text, a tooltip and one tag at the time 1000.
\<close>

fun join_path :: "string list \<Rightarrow> string" where
  "join_path [] = []"
| "join_path [x] = x"
| "join_path (x # y # ys) = x @ ''/'' @ join_path (dropWhile (\<lambda>c. c = CHR ''/'') y # ys)"

definition test_world :: "(string \<times> json) list \<Rightarrow> string option \<Rightarrow> 64 word \<Rightarrow> world" where
  "test_world table contents now =
     \<lparr>g_get_home_dir = ''/home/u'',
      g_build_filename = join_path,
      json_parser_load_from_data = map_of table,
      g_file_get_contents = (\<lambda>p. contents),
      gdk_rgba_parse = (\<lambda>str. None),
      g_file_monitor_file = (\<lambda>p. True),
      pango_layout_get_pixel_size = (\<lambda>bold str. (8 * int (length str), 16)),
      g_utf8_strlen = (\<lambda>str. int (length str)),
      g_get_monotonic_time = now,
      alloc_height = 24,
      gtk_box_style_classes = {},
      g_timeout_add = (\<lambda>interval. 1)\<rparr>"

definition file_world :: "string \<Rightarrow> json \<Rightarrow> 64 word \<Rightarrow> world" where
  "file_world contents rt now = test_world [(contents, rt)] (Some contents) now"

definition test_instance :: CodexShimmer where
  "test_instance =
     (init_clamp (init_defaults (test_world [] None 0)))
       \<lparr>cache_path := Some ''/home/u/.cache/codex-shimmer/latest.json'',
        text_plain := Some ''old'', tooltip_text := Some ''tip'',
        style_classes := [''busy''], container_classes := {''busy'', ''horizontal''},
        widget_tooltip := Some ''tip'', start_time_us := 1000\<rparr>"

subsection \<open>The tag set in the words of the specification\<close>

text \<open>
  This definition follows the specification, not the source: the \<^verbatim>\<open>class\<close> member
  gives the string elements of an array in their order, one tag for a single string, and
  no tag for any other shape or for a missing member. It is compared with what
  \<open>load_cache\<close> stores.
\<close>

fun string_elements :: "json list \<Rightarrow> string list" where
  "string_elements [] = []"
| "string_elements (JString s # rest) = s # string_elements rest"
| "string_elements (_ # rest) = string_elements rest"

definition spec_tags :: "json option \<Rightarrow> string list" where
  "spec_tags class_member =
     (case class_member of
        Some (JArray elems) \<Rightarrow> string_elements elems
      | Some (JString s) \<Rightarrow> [s]
      | _ \<Rightarrow> [])"

subsection \<open>The highlight of a frame in the words of the specification\<close>

text \<open>
  These definitions follow steps 6 and 7 of the renderer in the specification, not the
  source. The highlight is a function of the phase of the sweep: the band is the average
  glyph width times \<open>widthChars\<close>, scaled by the envelope and floored at six tenths of
  a glyph; its centre travels from the left of the text to its right; the gradient spans
  two band widths on either side of the centre (a span that is positive whenever the
  layout has a positive width) and has a stop at each offset \<open>i / 96\<close> for \<open>i\<close>
  from 0 to 96, with the Gaussian alpha of its distance from the centre. They are
  compared with what \<open>on_draw\<close> paints.
\<close>

definition spec_stop ::
  "CodexShimmer \<Rightarrow> real \<Rightarrow> real \<Rightarrow> real \<Rightarrow> real \<Rightarrow> real \<Rightarrow> nat \<Rightarrow> color_stop" where
  "spec_stop inst gradient_start gradient_end center band env i =
     (let t = real i / 96;
          px = gradient_start + t * (gradient_end - gradient_start);
          delta = (px - center) / band;
          gaussian = exp (- (delta * delta) / 2)
      in ColorStop t (red (highlight_rgba inst)) (green (highlight_rgba inst))
           (blue (highlight_rgba inst))
           (min 1 (max 0 (highlight_alpha inst * env * gaussian))))"

definition spec_highlight :: "CodexShimmer \<Rightarrow> int \<Rightarrow> int \<Rightarrow> real \<Rightarrow> real \<Rightarrow> paint_op" where
  "spec_highlight inst code_points layout_width y phase =
     (let glyph_count = max 1 code_points;
          avg_glyph_width = real_of_int layout_width / real_of_int glyph_count;
          base_band_width = max (avg_glyph_width * width_chars inst) avg_glyph_width;
          env = (if phase < 0.5 then phase * 2 else (1 - phase) * 2);
          band_width = max (avg_glyph_width * 0.6) (base_band_width * env);
          center = - band_width + phase * (real_of_int layout_width + band_width * 2);
          gradient_start = center - 2 * band_width;
          gradient_end = center + 2 * band_width
      in PaintPattern 0 y gradient_start gradient_end
           (map (spec_stop inst gradient_start gradient_end center band_width env) [0..<97]))"

subsection \<open>The configuration in the words of the specification\<close>

text \<open>
  The number that the configuration gives for a key: there is none when the key is
  missing, when its value is no JSON text, or when the value is no number. The
  documented default stands in that case.
\<close>

definition configured_number :: "world \<Rightarrow> (string \<times> string) list \<Rightarrow> string \<Rightarrow> json option" where
  "configured_number w entries key =
     (case config_lookup entries key of
        None \<Rightarrow> None
      | Some v \<Rightarrow>
          (case json_parser_load_from_data w v of
             None \<Rightarrow> None
           | Some n \<Rightarrow> (if json_node_is_number (Some n) then Some n else None)))"

subsection \<open>Loads that succeed\<close>

text \<open>
  Whether one of the refreshes of a list of worlds loads the cache with success, the
  refreshes being made one after the other from a given instance.
\<close>

fun some_refresh_loads :: "world list \<Rightarrow> CodexShimmer \<Rightarrow> bool" where
  "some_refresh_loads [] inst = False"
| "some_refresh_loads (w # ws) inst =
     (fst (load_cache w inst) \<or> some_refresh_loads ws (wbcffi_refresh w inst))"

section \<open>Properties of the macros\<close>

lemma glib_MAX_max: "glib_MAX a b = max b a"
  by (auto simp add: glib_MAX_def max_def)

lemma glib_CLAMP_min_max: "low \<le> high \<Longrightarrow> glib_CLAMP x low high = min high (max low x)"
  by (auto simp add: glib_CLAMP_def min_def max_def)

lemma band_floor: "glib_MAX (glib_MAX a b) a = max a b"
  by (auto simp add: glib_MAX_def max_def)

section \<open>Properties of the cache loader\<close>

subsection \<open>The three failures\<close>

lemma load_cache_unreadable:
  "read_cache_file w inst = None \<Longrightarrow> load_cache w inst = (False, inst)"
  by (simp add: load_cache_def)

lemma load_cache_malformed:
  "read_cache_file w inst = Some contents \<Longrightarrow> json_parser_load_from_data w contents = None
   \<Longrightarrow> load_cache w inst = (False, inst)"
  by (simp add: load_cache_def)

lemma load_cache_wrong_shape:
  "read_cache_file w inst = Some contents \<Longrightarrow> json_parser_load_from_data w contents = Some rt
   \<Longrightarrow> \<forall>obj. rt \<noteq> JObject obj \<Longrightarrow> load_cache w inst = (False, inst)"
  by (cases rt) (simp_all add: load_cache_def)

subsection \<open>The two loops over style classes\<close>

lemma remove_classes_eq: "remove_classes cls ctx = ctx - set cls"
  by (induction cls arbitrary: ctx) auto

lemma add_classes_style:
  "style_classes (add_classes elems inst) = style_classes inst @ string_elements elems"
proof (induction elems arbitrary: inst)
  case Nil
  show ?case by simp
next
  case (Cons node rest)
  show ?case by (cases node) (simp_all add: Cons.IH)
qed

lemma add_classes_container:
  "container_classes (add_classes elems inst) =
     container_classes inst \<union> set (string_elements elems)"
proof (induction elems arbitrary: inst)
  case Nil
  show ?case by simp
next
  case (Cons node rest)
  show ?case by (cases node) (simp_all add: Cons.IH)
qed

lemma add_classes_others:
  "text_plain (add_classes elems inst) = text_plain inst \<and>
   tooltip_text (add_classes elems inst) = tooltip_text inst \<and>
   widget_tooltip (add_classes elems inst) = widget_tooltip inst \<and>
   start_time_us (add_classes elems inst) = start_time_us inst"
proof (induction elems arbitrary: inst)
  case Nil
  show ?case by simp
next
  case (Cons node rest)
  show ?case by (cases node) (simp_all add: Cons.IH)
qed

lemma update_style_classes_style:
  "style_classes (update_style_classes inst classes) =
     (case classes of None \<Rightarrow> [] | Some elems \<Rightarrow> string_elements elems)"
  by (cases classes)
    (simp_all add: update_style_classes_def free_style_classes_def add_classes_style)

lemma update_style_classes_container:
  "container_classes (update_style_classes inst classes) =
     (container_classes inst - set (style_classes inst)) \<union>
     set (case classes of None \<Rightarrow> [] | Some elems \<Rightarrow> string_elements elems)"
  by (cases classes)
    (simp_all add: update_style_classes_def free_style_classes_def add_classes_container
      remove_classes_eq)

lemma update_style_classes_others:
  "text_plain (update_style_classes inst classes) = text_plain inst"
  "tooltip_text (update_style_classes inst classes) = tooltip_text inst"
  "widget_tooltip (update_style_classes inst classes) = widget_tooltip inst"
  by (cases classes;
      simp add: update_style_classes_def free_style_classes_def add_classes_others)+

subsection \<open>A load that succeeds, field by field\<close>

lemma load_cache_success:
  assumes "read_cache_file w inst = Some contents"
    and "json_parser_load_from_data w contents = Some (JObject obj)"
  shows "fst (load_cache w inst)"
    and "text_plain (snd (load_cache w inst)) =
           Some (case map_of obj ''text'' of Some (JString s) \<Rightarrow> s | _ \<Rightarrow> placeholder_text)"
    and "tooltip_text (snd (load_cache w inst)) =
           (case map_of obj ''tooltip'' of Some (JString s) \<Rightarrow> Some s | _ \<Rightarrow> None)"
    and "widget_tooltip (snd (load_cache w inst)) = tooltip_text (snd (load_cache w inst))"
    and "start_time_us (snd (load_cache w inst)) = g_get_monotonic_time w"
    and "style_classes (snd (load_cache w inst)) = spec_tags (map_of obj ''class'')"
    and "container_classes (snd (load_cache w inst)) =
           (container_classes inst - set (style_classes inst)) \<union>
           set (spec_tags (map_of obj ''class''))"
  using assms
  by (simp_all add: load_cache_def Let_def json_object_has_member_def
    json_object_get_string_member_def json_object_get_member_def update_tooltip_def
    update_style_classes_style update_style_classes_container update_style_classes_others
    spec_tags_def
    split: prod.splits option.splits json.splits)

lemma load_cache_cases:
  obtains (failed) "load_cache w inst = (False, inst)"
  | (loaded) contents obj where "read_cache_file w inst = Some contents"
      and "json_parser_load_from_data w contents = Some (JObject obj)"
proof (cases "read_cache_file w inst")
  case None
  then show ?thesis using failed load_cache_unreadable by blast
next
  case rd: (Some contents)
  show ?thesis
  proof (cases "json_parser_load_from_data w contents")
    case None
    with rd show ?thesis using failed load_cache_malformed by blast
  next
    case (Some rt)
    show ?thesis
    proof (cases "\<exists>obj. rt = JObject obj")
      case True
      with rd Some show ?thesis using loaded by blast
    next
      case False
      with rd Some show ?thesis using failed load_cache_wrong_shape by blast
    qed
  qed
qed

subsection \<open>The examples\<close>

lemma test_world_simps:
  "g_file_get_contents (test_world table contents now) p = contents"
  "json_parser_load_from_data (test_world table contents now) = map_of table"
  "g_get_monotonic_time (test_world table contents now) = now"
  "g_get_home_dir (test_world table contents now) = ''/home/u''"
  "g_build_filename (test_world table contents now) = join_path"
  "pango_layout_get_pixel_size (test_world table contents now) bold str =
     (8 * int (length str), 16)"
  "g_utf8_strlen (test_world table contents now) str = int (length str)"
  "alloc_height (test_world table contents now) = 24"
  "gdk_rgba_parse (test_world table contents now) str = None"
  by (simp_all add: test_world_def)

lemma test_instance_simps:
  "cache_path test_instance = Some ''/home/u/.cache/codex-shimmer/latest.json''"
  "text_plain test_instance = Some ''old''"
  "tooltip_text test_instance = Some ''tip''"
  "style_classes test_instance = [''busy'']"
  "container_classes test_instance = {''busy'', ''horizontal''}"
  "start_time_us test_instance = 1000"
  by (simp_all add: test_instance_def)

lemma read_test_world:
  "read_cache_file (test_world table contents now) test_instance = contents"
  by (simp add: read_cache_file_def test_world_simps test_instance_simps)

lemma file_world_simps:
  "read_cache_file (file_world contents rt now) test_instance = Some contents"
  "json_parser_load_from_data (file_world contents rt now) contents = Some rt"
  "g_get_monotonic_time (file_world contents rt now) = now"
  by (simp_all add: file_world_def read_test_world test_world_simps)

subsection \<open>Failed loads\<close>

text \<open>
  C1. A load of the cache file fails when the file cannot be read, when the parser
  rejects its bytes, or when the root of the document is not an object. In each of the
  three cases \<open>load_cache\<close> returns \<^verbatim>\<open>FALSE\<close> and the instance it leaves is the
  instance it was given: the text, the tooltip, the tags and the epoch are all untouched.
\<close>

theorem load_cache_failure_keeps_state:
  assumes "read_cache_file w inst = None \<or>
           (\<exists>contents. read_cache_file w inst = Some contents \<and>
              (json_parser_load_from_data w contents = None \<or>
               (\<exists>rt. json_parser_load_from_data w contents = Some rt \<and>
                     (\<forall>obj. rt \<noteq> JObject obj))))"
  shows "load_cache w inst = (False, inst)"
  using assms load_cache_unreadable load_cache_malformed load_cache_wrong_shape
  by blast

theorem load_cache_failure_keeps_state_witness:
  "read_cache_file (test_world [] (Some ''{not json'') 5000) test_instance = Some ''{not json'' \<and>
   json_parser_load_from_data (test_world [] (Some ''{not json'') 5000) ''{not json'' = None \<and>
   load_cache (test_world [] (Some ''{not json'') 5000) test_instance = (False, test_instance) \<and>
   text_plain (snd (load_cache (test_world [] (Some ''{not json'') 5000) test_instance)) =
     Some ''old'' \<and>
   style_classes (snd (load_cache (test_world [] (Some ''{not json'') 5000) test_instance)) =
     [''busy''] \<and>
   start_time_us (snd (load_cache (test_world [] (Some ''{not json'') 5000) test_instance)) =
     1000"
  using load_cache_failure_keeps_state [of "test_world [] (Some ''{not json'') 5000" test_instance]
  by (simp add: read_test_world test_world_simps test_instance_simps)

subsection \<open>Tags\<close>

text \<open>
  C4. After a load that succeeds, the stored tags are what the specification says of the
  \<^verbatim>\<open>class\<close> member: the string elements of an array in their order, the one string,
  or nothing. The tags that the instance had applied are all removed from the container
  and the new ones are added; classes of the container that are not tags stay.
\<close>

theorem load_cache_tags:
  assumes "read_cache_file w inst = Some contents"
    and "json_parser_load_from_data w contents = Some (JObject obj)"
  shows "style_classes (snd (load_cache w inst)) = spec_tags (map_of obj ''class'') \<and>
         container_classes (snd (load_cache w inst)) =
           (container_classes inst - set (style_classes inst)) \<union>
           set (spec_tags (map_of obj ''class''))"
  using load_cache_success(6,7) [OF assms] by simp

theorem load_cache_tags_witness:
  \<open>style_classes (snd (load_cache
      (file_world ''{"class":["a",3,"b"]}''
         (JObject [(''class'', JArray [JString ''a'', JInt 3, JString ''b''])]) 5000)
      test_instance)) = [''a'', ''b''] \<and>
    container_classes (snd (load_cache
      (file_world ''{"class":["a",3,"b"]}''
         (JObject [(''class'', JArray [JString ''a'', JInt 3, JString ''b''])]) 5000)
      test_instance)) = {''a'', ''b'', ''horizontal''}\<close>
  using load_cache_tags [OF file_world_simps(1,2), of \<open>''{"class":["a",3,"b"]}''\<close>
      "[(''class'', JArray [JString ''a'', JInt 3, JString ''b''])]" 5000]
  by (simp add: test_instance_simps spec_tags_def)

subsection \<open>A load of a text alone\<close>

text \<open>
  C5. When the cache file holds the object with the single member \<^verbatim>\<open>text\<close> equal to
  \<^verbatim>\<open>Hello\<close>, the load succeeds from any instance: the text is \<^verbatim>\<open>Hello\<close>, there
  is no tooltip, there are no tags (the tags applied before are removed from the
  container), and the epoch is the reading of the clock, so that the elapsed time read
  at that moment is 0.
\<close>

theorem load_cache_hello:
  assumes "read_cache_file w inst = Some contents"
    and "json_parser_load_from_data w contents = Some (JObject [(''text'', JString ''Hello'')])"
  shows "fst (load_cache w inst) \<and>
         text_plain (snd (load_cache w inst)) = Some ''Hello'' \<and>
         tooltip_text (snd (load_cache w inst)) = None \<and>
         widget_tooltip (snd (load_cache w inst)) = None \<and>
         style_classes (snd (load_cache w inst)) = [] \<and>
         container_classes (snd (load_cache w inst)) =
           container_classes inst - set (style_classes inst) \<and>
         start_time_us (snd (load_cache w inst)) = g_get_monotonic_time w \<and>
         elapsed_ms w (snd (load_cache w inst)) = 0"
  using load_cache_success [OF assms] by (simp add: spec_tags_def elapsed_ms_def)

theorem load_cache_hello_witness:
  \<open>text_plain (snd (load_cache
       (file_world ''{"text":"Hello"}'' (JObject [(''text'', JString ''Hello'')]) 5000)
       test_instance)) = Some ''Hello'' \<and>
    tooltip_text (snd (load_cache
       (file_world ''{"text":"Hello"}'' (JObject [(''text'', JString ''Hello'')]) 5000)
       test_instance)) = None \<and>
    style_classes (snd (load_cache
       (file_world ''{"text":"Hello"}'' (JObject [(''text'', JString ''Hello'')]) 5000)
       test_instance)) = [] \<and>
    container_classes (snd (load_cache
       (file_world ''{"text":"Hello"}'' (JObject [(''text'', JString ''Hello'')]) 5000)
       test_instance)) = {''horizontal''} \<and>
    start_time_us (snd (load_cache
       (file_world ''{"text":"Hello"}'' (JObject [(''text'', JString ''Hello'')]) 5000)
       test_instance)) = 5000\<close>
  using load_cache_hello [OF file_world_simps(1,2), of \<open>''{"text":"Hello"}''\<close> 5000]
  by (simp add: test_instance_simps file_world_simps)

section \<open>Properties of the renderer\<close>

subsection \<open>The remainder of the C library on non-negative arguments\<close>

lemma fmod_nonneg:
  assumes "0 \<le> x" and "0 < y"
  shows "fmod x y = x - y * real_of_int \<lfloor>x / y\<rfloor>"
  using assms by (simp add: fmod_def)

lemma fmod_range:
  assumes "0 \<le> x" and "0 < y"
  shows "0 \<le> fmod x y \<and> fmod x y < y"
proof -
  have lo: "real_of_int \<lfloor>x / y\<rfloor> \<le> x / y" by simp
  have hi: "x / y < real_of_int \<lfloor>x / y\<rfloor> + 1" by linarith
  from lo assms have "y * real_of_int \<lfloor>x / y\<rfloor> \<le> x"
    by (simp add: le_divide_eq mult.commute)
  moreover from hi have "x < (real_of_int \<lfloor>x / y\<rfloor> + 1) * y"
    by (simp only: pos_divide_less_eq [OF assms(2)])
  ultimately show ?thesis
    using assms by (simp add: fmod_nonneg algebra_simps)
qed

lemma fmod_small:
  assumes "0 \<le> x" and "x < y"
  shows "fmod x y = x"
proof -
  have "0 < y" using assms by simp
  have "\<lfloor>x / y\<rfloor> = 0" using assms by (simp add: floor_eq_iff)
  then show ?thesis using assms \<open>0 < y\<close> by (simp add: fmod_nonneg)
qed

lemma fmod_add_period:
  assumes "0 \<le> x" and "0 < y"
  shows "fmod (x + real k * y) y = fmod x y"
proof -
  have nn: "0 \<le> x + real k * y" using assms by simp
  have "(x + real k * y) / y = x / y + real_of_int (int k)"
    using assms by (simp add: add_divide_distrib)
  then have "\<lfloor>(x + real k * y) / y\<rfloor> = \<lfloor>x / y\<rfloor> + int k"
    by (simp only: floor_add_int)
  then show ?thesis
    using assms nn by (simp add: fmod_nonneg algebra_simps)
qed

subsection \<open>What a frame paints\<close>

text \<open>
  The loop of \<open>on_draw\<close> makes the 97 stops of the specification, and a frame of the
  sweep paints the highlight of the specification at the phase \<open>cycle_pos / period_ms\<close>
  after the base pass. A frame of the pause paints the base pass alone.
\<close>

lemma gaussian_eq: "exp (- 0.5 * d * d) = exp (- (d * d) / (2::real))"
  by simp

lemma add_color_stops_spec:
  "0 \<le> i \<Longrightarrow> i \<le> steps + 1 \<Longrightarrow>
   add_color_stops inst g0 g1 c bw env i = map (spec_stop inst g0 g1 c bw env) [nat i..<97]"
proof (induction inst g0 g1 c bw env i rule: add_color_stops.induct)
  case (1 inst g0 g1 c bw env i)
  show ?case
  proof (cases "i \<le> steps")
    case True
    then have ih: "add_color_stops inst g0 g1 c bw env (i + 1) =
        map (spec_stop inst g0 g1 c bw env) [nat (i + 1)..<97]"
      using "1.IH" "1.prems" by simp
    have lt: "nat i < 97" using True "1.prems" by (simp add: steps_def)
    have suc: "nat (i + 1) = Suc (nat i)" using "1.prems" by simp
    have upt: "[nat i..<97] = nat i # [nat (i + 1)..<97]"
      using lt by (simp add: upt_conv_Cons suc)
    have r: "real (nat i) = real_of_int i" using "1.prems" by simp
    have "add_color_stops inst g0 g1 c bw env i =
        spec_stop inst g0 g1 c bw env (nat i) # add_color_stops inst g0 g1 c bw env (i + 1)"
      using True
      by (simp only: add_color_stops.simps [of _ _ _ _ _ _ i] spec_stop_def Let_def if_True
          r gaussian_eq glib_CLAMP_min_max [of 0 "1::real", simplified] steps_def)
        simp
    then show ?thesis by (simp only: ih upt list.map)
  next
    case False
    then have "97 \<le> nat i" by (simp add: steps_def)
    with False show ?thesis
      by (simp add: add_color_stops.simps [of _ _ _ _ _ _ i])
  qed
qed


lemma on_draw_highlight_frame:
  assumes "text_plain inst = Some str"
    and "pango_layout_get_pixel_size w True str = (lw, lh)"
    and "0 < lw"
    and "cycle_pos inst (elapsed_ms w inst) < period_ms inst"
    and "0 < highlight_alpha inst"
  shows "on_draw w inst =
           (True, [ShowLayout 0 (real_of_int (alloc_height w - lh) / 2) (base_rgba inst),
                   spec_highlight inst (g_utf8_strlen w str) lw
                     (real_of_int (alloc_height w - lh) / 2)
                     (cycle_pos inst (elapsed_ms w inst) / period_ms inst)])"
proof -
  define glyphs where "glyphs = max 1 (g_utf8_strlen w str)"
  define avg where "avg = real_of_int lw / real_of_int glyphs"
  define base where "base = max (avg * width_chars inst) avg"
  define phase where "phase = cycle_pos inst (elapsed_ms w inst) / period_ms inst"
  define env where "env = (if phase < 0.5 then phase * 2 else (1 - phase) * 2)"
  define bw where "bw = max (avg * 0.6) (base * env)"
  define c where "c = - bw + phase * (real_of_int lw + bw * 2)"
  have glyphs_pos: "0 < glyphs" by (simp add: glyphs_def)
  then have avg_pos: "0 < avg" using assms(3) by (simp add: avg_def)
  have bw_pos: "0 < bw" using avg_pos by (simp add: bw_def less_max_iff_disj)
  have e1: "glib_MAX 1 (g_utf8_strlen w str) = glyphs"
    by (simp add: glyphs_def glib_MAX_max max.commute)
  have e2: "(if 0 < glyphs then real_of_int lw / real_of_int glyphs else real_of_int lw) = avg"
    using glyphs_pos by (simp add: avg_def)
  have e3: "glib_MAX (avg * width_chars inst) avg = base"
    by (simp add: base_def glib_MAX_max max.commute)
  have e4: "envelope phase = env"
    by (simp add: envelope_def env_def)
  have e5: "glib_MAX (glib_MAX (avg * 0.6) (base * env)) (avg * 0.6) = bw"
    by (simp only: band_floor bw_def)
  have e6: "center_px bw (real_of_int lw) phase = c"
    by (simp add: center_px_def c_def)
  have e7: "(if c + bw * 2 \<le> c - 2 * bw then c - 2 * bw + 1 else c + bw * 2) = c + 2 * bw"
    using bw_pos by simp
  have e8: "c - bw * 2 = c - 2 * bw" by simp
  have e9: "add_color_stops inst (c - 2 * bw) (c + 2 * bw) c bw env 0 =
      map (spec_stop inst (c - 2 * bw) (c + 2 * bw) c bw env) [0..<97]"
    using add_color_stops_spec [of 0 inst "c - 2 * bw" "c + 2 * bw" c bw env]
    by (simp add: steps_def)
  have cond: "\<not> (period_ms inst \<le> cycle_pos inst (elapsed_ms w inst) \<or> highlight_alpha inst \<le> 0)"
    using assms(4,5) by simp
  have nw: "\<not> lw \<le> 0" using assms(3) by simp
  have src: "on_draw w inst =
      (True, [ShowLayout 0 (real_of_int (alloc_height w - lh) / 2) (base_rgba inst),
              PaintPattern 0 (real_of_int (alloc_height w - lh) / 2) (c - 2 * bw) (c + 2 * bw)
                (map (spec_stop inst (c - 2 * bw) (c + 2 * bw) c bw env) [0..<97])])"
    by (simp only: on_draw_def assms(1,2) option.case Let_def prod.case nw cond if_False
        phase_def [symmetric] e1 e2 e3 e4 e5 e6 e7 e8 e9)
  have spec: "spec_highlight inst (g_utf8_strlen w str) lw
        (real_of_int (alloc_height w - lh) / 2) phase =
      PaintPattern 0 (real_of_int (alloc_height w - lh) / 2) (c - 2 * bw) (c + 2 * bw)
        (map (spec_stop inst (c - 2 * bw) (c + 2 * bw) c bw env) [0..<97])"
    by (simp only: spec_highlight_def Let_def glyphs_def [symmetric] avg_def [symmetric]
        base_def [symmetric] env_def [symmetric] bw_def [symmetric] c_def [symmetric])
  show ?thesis
    by (simp only: src spec phase_def [symmetric])
qed

lemma on_draw_pause_frame:
  assumes "text_plain inst = Some str"
    and "pango_layout_get_pixel_size w True str = (lw, lh)"
    and "0 < lw"
    and "period_ms inst \<le> cycle_pos inst (elapsed_ms w inst) \<or> highlight_alpha inst \<le> 0"
  shows "on_draw w inst =
           (True, [ShowLayout 0 (real_of_int (alloc_height w - lh) / 2) (base_rgba inst)])"
  using assms by (auto simp add: on_draw_def Let_def)

subsection \<open>The field \<open>cycles\<close>\<close>

lemma add_color_stops_cycles:
  "add_color_stops (inst\<lparr>cycles := c\<rparr>) gs ge cp wp env i =
   add_color_stops inst gs ge cp wp env i"
proof (induction inst gs ge cp wp env i rule: add_color_stops.induct)
  case (1 inst gs ge cp wp env i)
  show ?case
  proof (cases "i \<le> steps")
    case True
    with 1 show ?thesis
      by (simp add: add_color_stops.simps [of _ _ _ _ _ _ i] Let_def)
  next
    case False
    then show ?thesis
      by (simp add: add_color_stops.simps [of _ _ _ _ _ _ i])
  qed
qed

lemma on_draw_cycles: "on_draw w (inst\<lparr>cycles := c\<rparr>) = on_draw w inst"
proof (cases "text_plain inst")
  case None
  then show ?thesis by (simp add: on_draw_def)
next
  case (Some str)
  obtain lw lh where m: "pango_layout_get_pixel_size w True str = (lw, lh)"
    by (cases "pango_layout_get_pixel_size w True str")
  show ?thesis
  proof (cases "lw \<le> 0")
    case True
    with Some m show ?thesis by (simp add: on_draw_def)
  next
    case False
    with Some m show ?thesis
      by (simp add: on_draw_def cycle_pos_def elapsed_ms_def add_color_stops_cycles Let_def)
  qed
qed

lemma test_instance_config:
  "period_ms test_instance = 1600"
  "pause_ms test_instance = 500"
  "highlight_alpha test_instance = 7 / 20"
  "base_rgba test_instance = \<lparr>red = 0, green = 0, blue = 0, alpha = 1\<rparr>"
  by (simp_all add: test_instance_def init_clamp_def init_defaults_def g_new0_def
      rgba_parse_into_def test_world_simps glib_MAX_def glib_CLAMP_def Let_def)

lemma elapsed_test_instance:
  "elapsed_ms (test_world [] None 6401000) test_instance = 6400"
  "elapsed_ms (test_world [] None 8001000) test_instance = 8000"
  by (simp_all add: elapsed_ms_def test_world_simps test_instance_simps)

text \<open>
  C3. The value of \<open>cycles\<close> has no part in what \<open>on_draw\<close> does: two instances that
  differ in that field alone draw the same thing in the same world. The position in the
  cycle is the elapsed time reduced by the length \<open>period_ms + pause_ms\<close>: it is the
  same after any whole number of cycles, and within the first cycle it is the elapsed
  time itself. What is painted follows it: at the time \<open>e\<close> of any cycle, whatever
  \<open>cycles\<close> is, a text with a layout of positive width is painted with the highlight of
  the specification at the phase \<open>e / period_ms\<close> while \<open>e\<close> is less than the period,
  and with the base pass alone during the pause. So the phase runs once from 0 towards 1
  in each cycle: there is one sweep per cycle.
\<close>

theorem cycles_not_consumed:
  "on_draw w (inst\<lparr>cycles := c1\<rparr>) = on_draw w (inst\<lparr>cycles := c2\<rparr>) \<and>
   (0 < period_ms inst + pause_ms inst \<longrightarrow> 0 \<le> e \<longrightarrow>
      cycle_pos (inst\<lparr>cycles := c1\<rparr>) (e + real k * (period_ms inst + pause_ms inst)) =
      cycle_pos inst e) \<and>
   (0 \<le> e \<longrightarrow> e < period_ms inst + pause_ms inst \<longrightarrow>
      cycle_pos (inst\<lparr>cycles := c1\<rparr>) e = e) \<and>
   (\<forall>str lw lh. text_plain inst = Some str \<longrightarrow>
      pango_layout_get_pixel_size w True str = (lw, lh) \<longrightarrow> 0 < lw \<longrightarrow>
      0 < period_ms inst \<longrightarrow> 0 \<le> pause_ms inst \<longrightarrow> 0 < highlight_alpha inst \<longrightarrow>
      0 \<le> e \<longrightarrow> e < period_ms inst + pause_ms inst \<longrightarrow>
      elapsed_ms w inst = e + real k * (period_ms inst + pause_ms inst) \<longrightarrow>
      on_draw w (inst\<lparr>cycles := c1\<rparr>) =
        (True,
         ShowLayout 0 (real_of_int (alloc_height w - lh) / 2) (base_rgba inst) #
         (if e < period_ms inst
          then [spec_highlight inst (g_utf8_strlen w str) lw
                  (real_of_int (alloc_height w - lh) / 2) (e / period_ms inst)]
          else [])))"
proof -
  have frame: "on_draw w (inst\<lparr>cycles := c1\<rparr>) =
        (True,
         ShowLayout 0 (real_of_int (alloc_height w - lh) / 2) (base_rgba inst) #
         (if e < period_ms inst
          then [spec_highlight inst (g_utf8_strlen w str) lw
                  (real_of_int (alloc_height w - lh) / 2) (e / period_ms inst)]
          else []))"
    if t: "text_plain inst = Some str"
      and m: "pango_layout_get_pixel_size w True str = (lw, lh)"
      and lw: "0 < lw"
      and per: "0 < period_ms inst" "0 \<le> pause_ms inst"
      and al: "0 < highlight_alpha inst"
      and e: "0 \<le> e" "e < period_ms inst + pause_ms inst"
      and el: "elapsed_ms w inst = e + real k * (period_ms inst + pause_ms inst)"
    for str lw lh
  proof -
    have pos: "cycle_pos inst (elapsed_ms w inst) = e"
      using per e by (simp add: el cycle_pos_def fmod_add_period fmod_small)
    show ?thesis
    proof (cases "e < period_ms inst")
      case True
      then have "cycle_pos inst (elapsed_ms w inst) < period_ms inst" by (simp add: pos)
      from on_draw_highlight_frame [OF t m lw this al] True show ?thesis
        by (simp add: on_draw_cycles pos)
    next
      case False
      then have "period_ms inst \<le> cycle_pos inst (elapsed_ms w inst) \<or> highlight_alpha inst \<le> 0"
        by (simp add: pos)
      from on_draw_pause_frame [OF t m lw this] False show ?thesis
        by (simp add: on_draw_cycles)
    qed
  qed
  have "on_draw w (inst\<lparr>cycles := c1\<rparr>) = on_draw w (inst\<lparr>cycles := c2\<rparr>) \<and>
   (0 < period_ms inst + pause_ms inst \<longrightarrow> 0 \<le> e \<longrightarrow>
      cycle_pos (inst\<lparr>cycles := c1\<rparr>) (e + real k * (period_ms inst + pause_ms inst)) =
      cycle_pos inst e) \<and>
   (0 \<le> e \<longrightarrow> e < period_ms inst + pause_ms inst \<longrightarrow>
      cycle_pos (inst\<lparr>cycles := c1\<rparr>) e = e)"
    by (simp add: on_draw_cycles cycle_pos_def fmod_add_period fmod_small)
  with frame show ?thesis by blast
qed

theorem cycles_not_consumed_witness:
  "on_draw (test_world [] None 901000) (test_instance\<lparr>cycles := 6\<rparr>) =
     on_draw (test_world [] None 901000) (test_instance\<lparr>cycles := 1 / 10\<rparr>) \<and>
   cycle_pos (test_instance\<lparr>cycles := 6\<rparr>) (100 + real 3 * 2100) = 100 \<and>
   cycle_pos (test_instance\<lparr>cycles := 6\<rparr>) 100 = 100 \<and>
   cycle_pos test_instance 100 = 100 \<and>
   on_draw (test_world [] None 6401000) (test_instance\<lparr>cycles := 6\<rparr>) =
     (True, [ShowLayout 0 4 \<lparr>red = 0, green = 0, blue = 0, alpha = 1\<rparr>,
             spec_highlight test_instance 3 24 4 (1 / 16)]) \<and>
   on_draw (test_world [] None 8001000) (test_instance\<lparr>cycles := 6\<rparr>) =
     (True, [ShowLayout 0 4 \<lparr>red = 0, green = 0, blue = 0, alpha = 1\<rparr>])"
  using cycles_not_consumed [where w = "test_world [] None 901000" and inst = test_instance
      and ?c1.0 = 6 and ?c2.0 = "1 / 10" and e = 100 and k = 3]
    cycles_not_consumed [where w = "test_world [] None 901000" and inst = test_instance
      and ?c1.0 = 1 and ?c2.0 = 1 and e = 100 and k = 0]
    cycles_not_consumed [where w = "test_world [] None 6401000" and inst = test_instance
      and ?c1.0 = 6 and ?c2.0 = 6 and e = 100 and k = 3]
    cycles_not_consumed [where w = "test_world [] None 8001000" and inst = test_instance
      and ?c1.0 = 6 and ?c2.0 = 6 and e = 1700 and k = 3]
  by (simp add: test_instance_config test_instance_simps test_world_simps
      elapsed_test_instance)

subsection \<open>Frames without a highlight\<close>

text \<open>
  C6. When the position in the cycle has reached \<open>period_ms\<close>, or when
  \<open>highlight_alpha\<close> is not positive, \<open>on_draw\<close> paints no pattern: no colour stop is
  made. The base pass is still there: for a text that is present and whose layout has a
  positive width, what is painted is exactly the layout in the base colour.
\<close>

theorem on_draw_pause_or_disabled:
  assumes "period_ms inst \<le> cycle_pos inst (elapsed_ms w inst) \<or> highlight_alpha inst \<le> 0"
  shows "(\<forall>x y g0 g1 stops. PaintPattern x y g0 g1 stops \<notin> set (snd (on_draw w inst))) \<and>
         (\<forall>str lw lh. text_plain inst = Some str \<longrightarrow>
            pango_layout_get_pixel_size w True str = (lw, lh) \<longrightarrow> 0 < lw \<longrightarrow>
            on_draw w inst =
              (True, [ShowLayout 0 (real_of_int (alloc_height w - lh) / 2) (base_rgba inst)]))"
proof (cases "text_plain inst")
  case None
  then show ?thesis by (simp add: on_draw_def)
next
  case (Some str)
  obtain lw lh where m: "pango_layout_get_pixel_size w True str = (lw, lh)"
    by (cases "pango_layout_get_pixel_size w True str")
  show ?thesis
  proof (cases "lw \<le> 0")
    case True
    with Some m show ?thesis by (simp add: on_draw_def)
  next
    case False
    with Some m assms show ?thesis by (auto simp add: on_draw_def Let_def)
  qed
qed

lemma elapsed_test_world:
  "elapsed_ms (test_world [] None 1701000) test_instance = 1700"
  by (simp add: elapsed_ms_def test_world_simps test_instance_simps)

theorem on_draw_pause_or_disabled_witness:
  "period_ms test_instance \<le>
     cycle_pos test_instance (elapsed_ms (test_world [] None 1701000) test_instance) \<and>
   on_draw (test_world [] None 1701000) test_instance =
     (True, [ShowLayout 0 4 \<lparr>red = 0, green = 0, blue = 0, alpha = 1\<rparr>]) \<and>
   on_draw (test_world [] None 901000) (test_instance\<lparr>highlight_alpha := 0\<rparr>) =
     (True, [ShowLayout 0 4 \<lparr>red = 0, green = 0, blue = 0, alpha = 1\<rparr>])"
  using on_draw_pause_or_disabled [where inst = test_instance
      and w = "test_world [] None 1701000"]
    on_draw_pause_or_disabled [where inst = "test_instance\<lparr>highlight_alpha := 0\<rparr>"
      and w = "test_world [] None 901000"]
  by (simp add: elapsed_test_world cycle_pos_def fmod_small test_instance_config
      test_instance_simps test_world_simps)

subsection \<open>Frames with a highlight\<close>

text \<open>
  The other frames: the loop makes 97 colour stops, the phase lies between 0 and 1, and
  the pattern is painted after the base pass over a span that is not empty.
\<close>

lemma length_add_color_stops:
  "i \<le> steps + 1 \<Longrightarrow>
   length (add_color_stops inst gs ge cp wp env i) = nat (steps + 1 - i)"
proof (induction inst gs ge cp wp env i rule: add_color_stops.induct)
  case (1 inst gs ge cp wp env i)
  show ?case
  proof (cases "i \<le> steps")
    case True
    then have "length (add_color_stops inst gs ge cp wp env (i + 1)) = nat (steps + 1 - (i + 1))"
      using "1.IH" by simp
    with True show ?thesis
      by (simp add: add_color_stops.simps [of _ _ _ _ _ _ i] Let_def nat_diff_distrib)
  next
    case False
    with "1.prems" show ?thesis
      by (simp add: add_color_stops.simps [of _ _ _ _ _ _ i])
  qed
qed

lemma phase_range:
  assumes "0 < period_ms inst" and "0 \<le> pause_ms inst" and "0 \<le> elapsed"
    and "cycle_pos inst elapsed < period_ms inst"
  shows "0 \<le> cycle_pos inst elapsed / period_ms inst \<and>
         cycle_pos inst elapsed / period_ms inst < 1"
proof -
  have "0 \<le> cycle_pos inst elapsed"
    using assms fmod_range [of elapsed "period_ms inst + pause_ms inst"]
    by (simp add: cycle_pos_def)
  then show ?thesis using assms by simp
qed

lemma on_draw_sweep:
  assumes "text_plain inst = Some str"
    and "pango_layout_get_pixel_size w True str = (lw, lh)"
    and "0 < lw"
    and "cycle_pos inst (elapsed_ms w inst) < period_ms inst"
    and "0 < highlight_alpha inst"
  shows "\<exists>g0 g1 stops.
           on_draw w inst =
             (True, [ShowLayout 0 (real_of_int (alloc_height w - lh) / 2) (base_rgba inst),
                     PaintPattern 0 (real_of_int (alloc_height w - lh) / 2) g0 g1 stops]) \<and>
           g0 < g1 \<and> length stops = 97"
  using assms
  by (simp add: on_draw_def Let_def length_add_color_stops steps_def)

subsection \<open>The envelope\<close>

lemma envelope_min: "envelope phase = min (phase * 2) ((1 - phase) * 2)"
  by (simp add: envelope_def min_def)

lemma envelope_continuous: "continuous_on UNIV envelope"
proof -
  have "continuous_on UNIV (\<lambda>phase::real. min (phase * 2) ((1 - phase) * 2))"
    by (intro continuous_intros)
  then show ?thesis by (simp add: envelope_min [abs_def])
qed

lemma envelope_left_limit: "(envelope \<longlongrightarrow> 0) (at_left 1)"
proof -
  have "isCont envelope 1"
    using envelope_continuous by (simp add: continuous_on_eq_continuous_at)
  then have "(envelope \<longlongrightarrow> envelope 1) (at 1)"
    by (simp add: isCont_def)
  then have "(envelope \<longlongrightarrow> envelope 1) (at_left 1)"
    by (rule tendsto_mono [OF at_le, rotated]) simp
  then show ?thesis by (simp add: envelope_def)
qed

text \<open>
  C7. The envelope of line 385, as a function on the reals, is continuous; it is 0 at
  the phase 0 and 1 at the phase one half; it tends to 0 as the phase tends to 1 from
  below; and it takes the same value at equal distances on both sides of one half.
\<close>

theorem envelope_shape:
  "continuous_on UNIV envelope \<and> envelope 0 = 0 \<and> envelope (1 / 2) = 1 \<and>
   (envelope \<longlongrightarrow> 0) (at_left 1) \<and>
   (\<forall>d. envelope (1 / 2 - d) = envelope (1 / 2 + d))"
proof -
  have "envelope (1 / 2 - d) = envelope (1 / 2 + d)" for d
    by (simp add: envelope_def)
  then show ?thesis
    using envelope_continuous envelope_left_limit by (simp add: envelope_def)
qed

subsection \<open>The centre of the band\<close>

lemma center_px_eq: "center_px width_px layout_width_px phase =
    (layout_width_px + 2 * width_px) * phase + (- width_px)"
  by (simp add: center_px_def Let_def algebra_simps)

text \<open>
  C8. With the width of the layout and the width of the band held fixed and positive,
  the centre of lines 389 to 391 is an affine function of the phase with a positive
  slope, hence strictly increasing; it is minus the band width at the phase 0 and tends
  to the layout width plus the band width as the phase tends to 1 from below.
\<close>

theorem center_px_affine:
  assumes "0 < layout_width_px" and "0 < width_px"
  shows "strict_mono (center_px width_px layout_width_px) \<and>
         (\<forall>phase. center_px width_px layout_width_px phase =
                    (layout_width_px + 2 * width_px) * phase + (- width_px)) \<and>
         center_px width_px layout_width_px 0 = - width_px \<and>
         (center_px width_px layout_width_px \<longlongrightarrow> layout_width_px + width_px) (at_left 1)"
proof -
  have pos: "0 < layout_width_px + 2 * width_px" using assms by simp
  have mono: "strict_mono (center_px width_px layout_width_px)"
    unfolding strict_mono_def center_px_eq using pos by simp
  have "((\<lambda>phase. (layout_width_px + 2 * width_px) * phase + (- width_px))
           \<longlongrightarrow> (layout_width_px + 2 * width_px) * 1 + (- width_px)) (at_left 1)"
    by (intro tendsto_intros)
  moreover have "(layout_width_px + 2 * width_px) * 1 + (- width_px) = layout_width_px + width_px"
    by simp
  ultimately have "((\<lambda>phase. (layout_width_px + 2 * width_px) * phase + (- width_px))
           \<longlongrightarrow> layout_width_px + width_px) (at_left 1)"
    by (simp only:)
  then have lim:
    "(center_px width_px layout_width_px \<longlongrightarrow> layout_width_px + width_px) (at_left 1)"
    by (simp only: center_px_eq [abs_def])
  show ?thesis using mono lim by (simp add: center_px_eq)
qed

theorem center_px_affine_witness:
  "(0::real) < 40 \<and> (0::real) < 8 \<and> strict_mono (center_px 8 40) \<and> center_px 8 40 0 = - 8 \<and>
   (center_px 8 40 \<longlongrightarrow> 48) (at_left 1)"
  using center_px_affine [of 40 8] by simp

section \<open>Properties of the initialisation\<close>

subsection \<open>What a load keeps\<close>

lemma add_classes_config:
  "period_ms (add_classes elems inst) = period_ms inst \<and>
   width_chars (add_classes elems inst) = width_chars inst \<and>
   cycles (add_classes elems inst) = cycles inst \<and>
   tick_ms (add_classes elems inst) = tick_ms inst \<and>
   pause_ms (add_classes elems inst) = pause_ms inst \<and>
   highlight_alpha (add_classes elems inst) = highlight_alpha inst \<and>
   base_alpha (add_classes elems inst) = base_alpha inst \<and>
   cache_path (add_classes elems inst) = cache_path inst"
proof (induction elems arbitrary: inst)
  case Nil
  show ?case by simp
next
  case (Cons node rest)
  show ?case by (cases node) (simp_all add: Cons.IH)
qed

lemma update_style_classes_config:
  "period_ms (update_style_classes inst classes) = period_ms inst"
  "width_chars (update_style_classes inst classes) = width_chars inst"
  "cycles (update_style_classes inst classes) = cycles inst"
  "tick_ms (update_style_classes inst classes) = tick_ms inst"
  "pause_ms (update_style_classes inst classes) = pause_ms inst"
  "highlight_alpha (update_style_classes inst classes) = highlight_alpha inst"
  "base_alpha (update_style_classes inst classes) = base_alpha inst"
  "cache_path (update_style_classes inst classes) = cache_path inst"
  by (cases classes;
      simp add: update_style_classes_def free_style_classes_def add_classes_config)+

lemma load_cache_config:
  "period_ms (snd (load_cache w inst)) = period_ms inst \<and>
   width_chars (snd (load_cache w inst)) = width_chars inst \<and>
   cycles (snd (load_cache w inst)) = cycles inst \<and>
   tick_ms (snd (load_cache w inst)) = tick_ms inst \<and>
   pause_ms (snd (load_cache w inst)) = pause_ms inst \<and>
   highlight_alpha (snd (load_cache w inst)) = highlight_alpha inst \<and>
   base_alpha (snd (load_cache w inst)) = base_alpha inst \<and>
   cache_path (snd (load_cache w inst)) = cache_path inst"
proof (cases rule: load_cache_cases [of w inst])
  case failed
  then show ?thesis by simp
next
  case (loaded contents obj)
  then show ?thesis
    by (simp add: load_cache_def Let_def update_style_classes_config update_tooltip_def
        split: prod.splits)
qed

lemma wbcffi_init_config:
  "period_ms (wbcffi_init w entries) = period_ms (init_config w entries)"
  "width_chars (wbcffi_init w entries) = width_chars (init_config w entries)"
  "cycles (wbcffi_init w entries) = cycles (init_config w entries)"
  "tick_ms (wbcffi_init w entries) = tick_ms (init_config w entries)"
  "pause_ms (wbcffi_init w entries) = pause_ms (init_config w entries)"
  "highlight_alpha (wbcffi_init w entries) = highlight_alpha (init_config w entries)"
  "base_alpha (wbcffi_init w entries) = base_alpha (init_config w entries)"
  "cache_path (wbcffi_init w entries) = cache_path (init_config w entries)"
  by (simp_all add: wbcffi_init_def Let_def load_cache_config setup_monitor_def)

subsection \<open>What each block of the configuration keeps\<close>

lemma configure_cache_path_keeps:
  "period_ms (configure_cache_path w entries inst) = period_ms inst \<and>
   width_chars (configure_cache_path w entries inst) = width_chars inst \<and>
   cycles (configure_cache_path w entries inst) = cycles inst \<and>
   tick_ms (configure_cache_path w entries inst) = tick_ms inst \<and>
   pause_ms (configure_cache_path w entries inst) = pause_ms inst \<and>
   highlight_alpha (configure_cache_path w entries inst) = highlight_alpha inst \<and>
   base_alpha (configure_cache_path w entries inst) = base_alpha inst"
  by (simp add: configure_cache_path_def Let_def split: option.splits)

lemma configure_period_ms_keeps:
  "width_chars (configure_period_ms w entries inst) = width_chars inst \<and>
   cycles (configure_period_ms w entries inst) = cycles inst \<and>
   tick_ms (configure_period_ms w entries inst) = tick_ms inst \<and>
   pause_ms (configure_period_ms w entries inst) = pause_ms inst \<and>
   highlight_alpha (configure_period_ms w entries inst) = highlight_alpha inst \<and>
   base_alpha (configure_period_ms w entries inst) = base_alpha inst \<and>
   cache_path (configure_period_ms w entries inst) = cache_path inst"
  by (simp add: configure_period_ms_def Let_def split: option.splits)

lemma configure_width_chars_keeps:
  "period_ms (configure_width_chars w entries inst) = period_ms inst \<and>
   cycles (configure_width_chars w entries inst) = cycles inst \<and>
   tick_ms (configure_width_chars w entries inst) = tick_ms inst \<and>
   pause_ms (configure_width_chars w entries inst) = pause_ms inst \<and>
   highlight_alpha (configure_width_chars w entries inst) = highlight_alpha inst \<and>
   base_alpha (configure_width_chars w entries inst) = base_alpha inst \<and>
   cache_path (configure_width_chars w entries inst) = cache_path inst"
  by (simp add: configure_width_chars_def Let_def split: option.splits)

lemma configure_pause_ms_keeps:
  "period_ms (configure_pause_ms w entries inst) = period_ms inst \<and>
   width_chars (configure_pause_ms w entries inst) = width_chars inst \<and>
   cycles (configure_pause_ms w entries inst) = cycles inst \<and>
   tick_ms (configure_pause_ms w entries inst) = tick_ms inst \<and>
   highlight_alpha (configure_pause_ms w entries inst) = highlight_alpha inst \<and>
   base_alpha (configure_pause_ms w entries inst) = base_alpha inst \<and>
   cache_path (configure_pause_ms w entries inst) = cache_path inst"
  by (simp add: configure_pause_ms_def Let_def split: option.splits)

lemma configure_cycles_keeps:
  "period_ms (configure_cycles w entries inst) = period_ms inst \<and>
   width_chars (configure_cycles w entries inst) = width_chars inst \<and>
   tick_ms (configure_cycles w entries inst) = tick_ms inst \<and>
   pause_ms (configure_cycles w entries inst) = pause_ms inst \<and>
   highlight_alpha (configure_cycles w entries inst) = highlight_alpha inst \<and>
   base_alpha (configure_cycles w entries inst) = base_alpha inst \<and>
   cache_path (configure_cycles w entries inst) = cache_path inst"
  by (simp add: configure_cycles_def Let_def split: option.splits)

lemma configure_tick_ms_keeps:
  "period_ms (configure_tick_ms w entries inst) = period_ms inst \<and>
   width_chars (configure_tick_ms w entries inst) = width_chars inst \<and>
   cycles (configure_tick_ms w entries inst) = cycles inst \<and>
   pause_ms (configure_tick_ms w entries inst) = pause_ms inst \<and>
   highlight_alpha (configure_tick_ms w entries inst) = highlight_alpha inst \<and>
   base_alpha (configure_tick_ms w entries inst) = base_alpha inst \<and>
   cache_path (configure_tick_ms w entries inst) = cache_path inst"
  by (simp add: configure_tick_ms_def Let_def split: option.splits)

lemma configure_base_color_keeps:
  "period_ms (configure_base_color w entries inst) = period_ms inst \<and>
   width_chars (configure_base_color w entries inst) = width_chars inst \<and>
   cycles (configure_base_color w entries inst) = cycles inst \<and>
   tick_ms (configure_base_color w entries inst) = tick_ms inst \<and>
   pause_ms (configure_base_color w entries inst) = pause_ms inst \<and>
   highlight_alpha (configure_base_color w entries inst) = highlight_alpha inst \<and>
   base_alpha (configure_base_color w entries inst) = base_alpha inst \<and>
   cache_path (configure_base_color w entries inst) = cache_path inst"
  by (simp add: configure_base_color_def split: option.splits json.splits)

lemma configure_highlight_color_keeps:
  "period_ms (configure_highlight_color w entries inst) = period_ms inst \<and>
   width_chars (configure_highlight_color w entries inst) = width_chars inst \<and>
   cycles (configure_highlight_color w entries inst) = cycles inst \<and>
   tick_ms (configure_highlight_color w entries inst) = tick_ms inst \<and>
   pause_ms (configure_highlight_color w entries inst) = pause_ms inst \<and>
   highlight_alpha (configure_highlight_color w entries inst) = highlight_alpha inst \<and>
   base_alpha (configure_highlight_color w entries inst) = base_alpha inst \<and>
   cache_path (configure_highlight_color w entries inst) = cache_path inst"
  by (simp add: configure_highlight_color_def split: option.splits json.splits)

lemma configure_highlight_alpha_keeps:
  "period_ms (configure_highlight_alpha w entries inst) = period_ms inst \<and>
   width_chars (configure_highlight_alpha w entries inst) = width_chars inst \<and>
   cycles (configure_highlight_alpha w entries inst) = cycles inst \<and>
   tick_ms (configure_highlight_alpha w entries inst) = tick_ms inst \<and>
   pause_ms (configure_highlight_alpha w entries inst) = pause_ms inst \<and>
   base_alpha (configure_highlight_alpha w entries inst) = base_alpha inst \<and>
   cache_path (configure_highlight_alpha w entries inst) = cache_path inst"
  by (simp add: configure_highlight_alpha_def Let_def split: option.splits)

lemma configure_base_alpha_keeps:
  "period_ms (configure_base_alpha w entries inst) = period_ms inst \<and>
   width_chars (configure_base_alpha w entries inst) = width_chars inst \<and>
   cycles (configure_base_alpha w entries inst) = cycles inst \<and>
   tick_ms (configure_base_alpha w entries inst) = tick_ms inst \<and>
   pause_ms (configure_base_alpha w entries inst) = pause_ms inst \<and>
   highlight_alpha (configure_base_alpha w entries inst) = highlight_alpha inst \<and>
   cache_path (configure_base_alpha w entries inst) = cache_path inst"
  by (simp add: configure_base_alpha_def Let_def split: option.splits)

lemmas configure_keeps =
  configure_cache_path_keeps configure_period_ms_keeps configure_width_chars_keeps
  configure_pause_ms_keeps configure_cycles_keeps configure_tick_ms_keeps
  configure_base_color_keeps configure_highlight_color_keeps
  configure_highlight_alpha_keeps configure_base_alpha_keeps

subsection \<open>The defaults and the clamps\<close>

lemma init_defaults_fields:
  "period_ms (init_defaults w) = 1600"
  "width_chars (init_defaults w) = 4"
  "cycles (init_defaults w) = 1"
  "tick_ms (init_defaults w) = 33"
  "pause_ms (init_defaults w) = 500"
  "highlight_alpha (init_defaults w) = 7 / 20"
  "base_alpha (init_defaults w) = 1"
  "text_plain (init_defaults w) = None"
  by (simp_all add: init_defaults_def Let_def g_new0_def)

lemma init_clamp_fields:
  "period_ms (init_clamp inst) = glib_MAX (period_ms inst) 200"
  "width_chars (init_clamp inst) = glib_CLAMP (width_chars inst) 1 20"
  "cycles (init_clamp inst) = glib_CLAMP (cycles inst) (1 / 10) 6"
  "tick_ms (init_clamp inst) = glib_CLAMP (tick_ms inst) 5 1000"
  "pause_ms (init_clamp inst) = glib_MAX (pause_ms inst) 0"
  "highlight_alpha (init_clamp inst) = highlight_alpha inst"
  "base_alpha (init_clamp inst) = base_alpha inst"
  "cache_path (init_clamp inst) = cache_path inst"
  by (simp_all add: init_clamp_def Let_def)

subsection \<open>What each block of the configuration stores\<close>

lemma configure_period_ms_value:
  "period_ms (configure_period_ms w entries inst) =
     (case configured_number w entries ''period_ms'' of
        None \<Rightarrow> period_ms inst | Some n \<Rightarrow> json_node_get_double n)"
  by (simp add: configure_period_ms_def configured_number_def parse_json_value_def
      json_node_get_double_or_def Let_def split: option.splits)

lemma configure_width_chars_value:
  "width_chars (configure_width_chars w entries inst) =
     (case configured_number w entries
             (if config_lookup entries ''width_chars'' = None then ''width'' else ''width_chars'') of
        None \<Rightarrow> width_chars inst | Some n \<Rightarrow> json_node_get_double n)"
  by (simp add: configure_width_chars_def configured_number_def parse_json_value_def
      json_node_get_double_or_def Let_def split: option.splits)

lemma configure_pause_ms_value:
  "pause_ms (configure_pause_ms w entries inst) =
     (case configured_number w entries ''pause_ms'' of
        None \<Rightarrow> pause_ms inst | Some n \<Rightarrow> json_node_get_double n)"
  by (simp add: configure_pause_ms_def configured_number_def parse_json_value_def
      json_node_get_double_or_def Let_def split: option.splits)

lemma configure_cycles_value:
  "cycles (configure_cycles w entries inst) =
     (case configured_number w entries ''cycles'' of
        None \<Rightarrow> cycles inst | Some n \<Rightarrow> json_node_get_double n)"
  by (simp add: configure_cycles_def configured_number_def parse_json_value_def
      json_node_get_double_or_def Let_def split: option.splits)

lemma configure_tick_ms_value:
  "tick_ms (configure_tick_ms w entries inst) =
     (case configured_number w entries ''tick_ms'' of
        None \<Rightarrow> tick_ms inst
      | Some n \<Rightarrow> nat (glib_CLAMP (json_node_get_int n) 0 G_MAXUINT))"
  by (simp add: configure_tick_ms_def configured_number_def parse_json_value_def
      json_node_get_uint_or_def Let_def split: option.splits)

lemma configure_highlight_alpha_value:
  "highlight_alpha (configure_highlight_alpha w entries inst) =
     (case config_lookup entries ''highlight_alpha'' of
        None \<Rightarrow> highlight_alpha inst
      | Some v \<Rightarrow>
          glib_CLAMP (case configured_number w entries ''highlight_alpha'' of
                        None \<Rightarrow> highlight_alpha inst | Some n \<Rightarrow> json_node_get_double n) 0 1)"
  by (simp add: configure_highlight_alpha_def configured_number_def parse_json_value_def
      json_node_get_double_or_def Let_def split: option.splits)

lemma configure_base_alpha_value:
  "base_alpha (configure_base_alpha w entries inst) =
     (case config_lookup entries ''base_alpha'' of
        None \<Rightarrow> base_alpha inst
      | Some v \<Rightarrow>
          glib_CLAMP (case configured_number w entries ''base_alpha'' of
                        None \<Rightarrow> base_alpha inst | Some n \<Rightarrow> json_node_get_double n) 0 1)"
  by (simp add: configure_base_alpha_def configured_number_def parse_json_value_def
      json_node_get_double_or_def Let_def split: option.splits)

lemma configured_number_None:
  "config_lookup entries key = None \<Longrightarrow> configured_number w entries key = None"
  by (simp add: configured_number_def)

subsection \<open>The configuration that is stored\<close>

lemma init_config_period_ms:
  "period_ms (init_config w entries) =
     (case configured_number w entries ''period_ms'' of
        None \<Rightarrow> 1600 | Some n \<Rightarrow> max 200 (json_node_get_double n))"
  by (simp add: init_config_def init_clamp_fields configure_keeps configure_period_ms_value
      init_defaults_fields glib_MAX_max split: option.splits)

lemma init_config_width_chars:
  "width_chars (init_config w entries) =
     (case configured_number w entries
             (if config_lookup entries ''width_chars'' = None then ''width'' else ''width_chars'') of
        None \<Rightarrow> 4 | Some n \<Rightarrow> min 20 (max 1 (json_node_get_double n)))"
  by (simp add: init_config_def init_clamp_fields configure_keeps configure_width_chars_value
      init_defaults_fields glib_CLAMP_min_max split: option.splits)

lemma init_config_pause_ms:
  "pause_ms (init_config w entries) =
     (case configured_number w entries ''pause_ms'' of
        None \<Rightarrow> 500 | Some n \<Rightarrow> max 0 (json_node_get_double n))"
  by (simp add: init_config_def init_clamp_fields configure_keeps configure_pause_ms_value
      init_defaults_fields glib_MAX_max split: option.splits)

lemma init_config_cycles:
  "cycles (init_config w entries) =
     (case configured_number w entries ''cycles'' of
        None \<Rightarrow> 1 | Some n \<Rightarrow> min 6 (max (1 / 10) (json_node_get_double n)))"
  by (simp add: init_config_def init_clamp_fields configure_keeps configure_cycles_value
      init_defaults_fields glib_CLAMP_min_max split: option.splits)

lemma clamp_tick:
  "glib_CLAMP (nat (glib_CLAMP i 0 G_MAXUINT)) 5 1000 = nat (min 1000 (max 5 i))"
  by (auto simp add: glib_CLAMP_def G_MAXUINT_def min_def max_def)

lemma init_config_tick_ms:
  "tick_ms (init_config w entries) =
     (case configured_number w entries ''tick_ms'' of
        None \<Rightarrow> 33 | Some n \<Rightarrow> nat (min 1000 (max 5 (json_node_get_int n))))"
  by (simp add: init_config_def init_clamp_fields configure_keeps configure_tick_ms_value
      init_defaults_fields clamp_tick split: option.splits)
    (simp add: glib_CLAMP_def)

lemma init_config_highlight_alpha:
  "highlight_alpha (init_config w entries) =
     (case configured_number w entries ''highlight_alpha'' of
        None \<Rightarrow> 7 / 20 | Some n \<Rightarrow> min 1 (max 0 (json_node_get_double n)))"
proof (cases "config_lookup entries ''highlight_alpha''")
  case None
  then show ?thesis
    by (simp add: init_config_def init_clamp_fields configure_keeps
        configure_highlight_alpha_value init_defaults_fields configured_number_None)
next
  case (Some v)
  then show ?thesis
    by (simp add: init_config_def init_clamp_fields configure_keeps
        configure_highlight_alpha_value init_defaults_fields glib_CLAMP_min_max
        split: option.splits)
qed

lemma init_config_base_alpha:
  "base_alpha (init_config w entries) =
     (case configured_number w entries ''base_alpha'' of
        None \<Rightarrow> 1 | Some n \<Rightarrow> min 1 (max 0 (json_node_get_double n)))"
proof (cases "config_lookup entries ''base_alpha''")
  case None
  then show ?thesis
    by (simp add: init_config_def init_clamp_fields configure_keeps
        configure_base_alpha_value init_defaults_fields configured_number_None)
next
  case (Some v)
  then show ?thesis
    by (simp add: init_config_def init_clamp_fields configure_keeps
        configure_base_alpha_value init_defaults_fields glib_CLAMP_min_max
        split: option.splits)
qed

lemma init_config_ranges:
  "200 \<le> period_ms (init_config w entries) \<and>
   1 \<le> width_chars (init_config w entries) \<and> width_chars (init_config w entries) \<le> 20 \<and>
   5 \<le> tick_ms (init_config w entries) \<and> tick_ms (init_config w entries) \<le> 1000 \<and>
   0 \<le> pause_ms (init_config w entries) \<and>
   1 / 10 \<le> cycles (init_config w entries) \<and> cycles (init_config w entries) \<le> 6"
  by (simp add: init_config_def init_clamp_fields glib_MAX_def glib_CLAMP_def)

lemma init_config_alpha:
  "0 \<le> highlight_alpha (init_config w entries) \<and> highlight_alpha (init_config w entries) \<le> 1 \<and>
   0 \<le> base_alpha (init_config w entries) \<and> base_alpha (init_config w entries) \<le> 1"
  by (simp add: init_config_highlight_alpha init_config_base_alpha split: option.splits)

lemma configured_number_eq:
  "config_lookup entries key = Some v \<Longrightarrow> json_parser_load_from_data w v = Some n \<Longrightarrow>
   json_node_is_number (Some n) \<Longrightarrow> configured_number w entries key = Some n"
  by (simp add: configured_number_def)

lemma double_to_gint64_small:
  "double_to_gint64 1 = 1" "double_to_gint64 (10 ^ 30) = G_MININT64"
  by (simp_all add: double_to_gint64_def G_MININT64_def G_MAXINT64_def)

text \<open>
  C9. Whatever the configuration holds, the instance that \<open>wbcffi_init\<close> returns has
  a period of at least 200, a width between 1 and 20, a tick between 5 and 1000, a pause
  that is not negative, a \<open>cycles\<close> value between 0.1 and 6 and both alpha values between
  0 and 1. A configured \<^verbatim>\<open>period_ms\<close> of 50 is stored as 200, a configured
  \<^verbatim>\<open>width_chars\<close> of 50 as 20 and a configured \<^verbatim>\<open>tick_ms\<close> of 1 as 5, whether the
  parser reads the number as an integer or as a double. In general each of the seven
  values that is stored is the configured number brought into its range by the nearest
  bound (the number itself when it is in the range), and the default when no number is
  configured: 1600, 4 (under the key \<^verbatim>\<open>width_chars\<close>, or \<^verbatim>\<open>width\<close> when that key is
  missing), 33, 500, 1, 0.35 and 1.
\<close>

theorem config_clamped:
  "200 \<le> period_ms (wbcffi_init w entries) \<and>
   1 \<le> width_chars (wbcffi_init w entries) \<and> width_chars (wbcffi_init w entries) \<le> 20 \<and>
   5 \<le> tick_ms (wbcffi_init w entries) \<and> tick_ms (wbcffi_init w entries) \<le> 1000 \<and>
   0 \<le> pause_ms (wbcffi_init w entries) \<and>
   1 / 10 \<le> cycles (wbcffi_init w entries) \<and> cycles (wbcffi_init w entries) \<le> 6 \<and>
   0 \<le> highlight_alpha (wbcffi_init w entries) \<and> highlight_alpha (wbcffi_init w entries) \<le> 1 \<and>
   0 \<le> base_alpha (wbcffi_init w entries) \<and> base_alpha (wbcffi_init w entries) \<le> 1 \<and>
   (\<forall>v n. config_lookup entries ''period_ms'' = Some v \<longrightarrow>
      json_parser_load_from_data w v = Some n \<longrightarrow> n = JInt 50 \<or> n = JDouble 50 \<longrightarrow>
      period_ms (wbcffi_init w entries) = 200) \<and>
   (\<forall>v n. config_lookup entries ''width_chars'' = Some v \<longrightarrow>
      json_parser_load_from_data w v = Some n \<longrightarrow> n = JInt 50 \<or> n = JDouble 50 \<longrightarrow>
      width_chars (wbcffi_init w entries) = 20) \<and>
   (\<forall>v n. config_lookup entries ''tick_ms'' = Some v \<longrightarrow>
      json_parser_load_from_data w v = Some n \<longrightarrow> n = JInt 1 \<or> n = JDouble 1 \<longrightarrow>
      tick_ms (wbcffi_init w entries) = 5) \<and>
   period_ms (wbcffi_init w entries) =
     (case configured_number w entries ''period_ms'' of
        None \<Rightarrow> 1600 | Some n \<Rightarrow> max 200 (json_node_get_double n)) \<and>
   width_chars (wbcffi_init w entries) =
     (case configured_number w entries
             (if config_lookup entries ''width_chars'' = None then ''width'' else ''width_chars'') of
        None \<Rightarrow> 4 | Some n \<Rightarrow> min 20 (max 1 (json_node_get_double n))) \<and>
   tick_ms (wbcffi_init w entries) =
     (case configured_number w entries ''tick_ms'' of
        None \<Rightarrow> 33 | Some n \<Rightarrow> nat (min 1000 (max 5 (json_node_get_int n)))) \<and>
   pause_ms (wbcffi_init w entries) =
     (case configured_number w entries ''pause_ms'' of
        None \<Rightarrow> 500 | Some n \<Rightarrow> max 0 (json_node_get_double n)) \<and>
   cycles (wbcffi_init w entries) =
     (case configured_number w entries ''cycles'' of
        None \<Rightarrow> 1 | Some n \<Rightarrow> min 6 (max (1 / 10) (json_node_get_double n))) \<and>
   highlight_alpha (wbcffi_init w entries) =
     (case configured_number w entries ''highlight_alpha'' of
        None \<Rightarrow> 7 / 20 | Some n \<Rightarrow> min 1 (max 0 (json_node_get_double n))) \<and>
   base_alpha (wbcffi_init w entries) =
     (case configured_number w entries ''base_alpha'' of
        None \<Rightarrow> 1 | Some n \<Rightarrow> min 1 (max 0 (json_node_get_double n)))"
proof -
  have p: "period_ms (wbcffi_init w entries) = 200"
    if "config_lookup entries ''period_ms'' = Some v" "json_parser_load_from_data w v = Some n"
      "n = JInt 50 \<or> n = JDouble 50" for v n
  proof -
    have "configured_number w entries ''period_ms'' = Some n"
      using that by (intro configured_number_eq) auto
    then show ?thesis
      using that(3) by (auto simp add: wbcffi_init_config init_config_period_ms)
  qed
  have wd: "width_chars (wbcffi_init w entries) = 20"
    if "config_lookup entries ''width_chars'' = Some v" "json_parser_load_from_data w v = Some n"
      "n = JInt 50 \<or> n = JDouble 50" for v n
  proof -
    have "configured_number w entries ''width_chars'' = Some n"
      using that by (intro configured_number_eq) auto
    then show ?thesis
      using that(1,3) by (auto simp add: wbcffi_init_config init_config_width_chars)
  qed
  have t: "tick_ms (wbcffi_init w entries) = 5"
    if "config_lookup entries ''tick_ms'' = Some v" "json_parser_load_from_data w v = Some n"
      "n = JInt 1 \<or> n = JDouble 1" for v n
  proof -
    have "configured_number w entries ''tick_ms'' = Some n"
      using that by (intro configured_number_eq) auto
    then show ?thesis
      using that(3)
      by (auto simp add: wbcffi_init_config init_config_tick_ms double_to_gint64_small)
  qed
  have ranges: "200 \<le> period_ms (wbcffi_init w entries) \<and>
   1 \<le> width_chars (wbcffi_init w entries) \<and> width_chars (wbcffi_init w entries) \<le> 20 \<and>
   5 \<le> tick_ms (wbcffi_init w entries) \<and> tick_ms (wbcffi_init w entries) \<le> 1000 \<and>
   0 \<le> pause_ms (wbcffi_init w entries) \<and>
   1 / 10 \<le> cycles (wbcffi_init w entries) \<and> cycles (wbcffi_init w entries) \<le> 6 \<and>
   0 \<le> highlight_alpha (wbcffi_init w entries) \<and> highlight_alpha (wbcffi_init w entries) \<le> 1 \<and>
   0 \<le> base_alpha (wbcffi_init w entries) \<and> base_alpha (wbcffi_init w entries) \<le> 1"
    using init_config_ranges [of w entries] init_config_alpha [of w entries]
    by (simp add: wbcffi_init_config)
  have vals: "period_ms (wbcffi_init w entries) =
     (case configured_number w entries ''period_ms'' of
        None \<Rightarrow> 1600 | Some n \<Rightarrow> max 200 (json_node_get_double n)) \<and>
   width_chars (wbcffi_init w entries) =
     (case configured_number w entries
             (if config_lookup entries ''width_chars'' = None then ''width'' else ''width_chars'') of
        None \<Rightarrow> 4 | Some n \<Rightarrow> min 20 (max 1 (json_node_get_double n))) \<and>
   tick_ms (wbcffi_init w entries) =
     (case configured_number w entries ''tick_ms'' of
        None \<Rightarrow> 33 | Some n \<Rightarrow> nat (min 1000 (max 5 (json_node_get_int n)))) \<and>
   pause_ms (wbcffi_init w entries) =
     (case configured_number w entries ''pause_ms'' of
        None \<Rightarrow> 500 | Some n \<Rightarrow> max 0 (json_node_get_double n)) \<and>
   cycles (wbcffi_init w entries) =
     (case configured_number w entries ''cycles'' of
        None \<Rightarrow> 1 | Some n \<Rightarrow> min 6 (max (1 / 10) (json_node_get_double n))) \<and>
   highlight_alpha (wbcffi_init w entries) =
     (case configured_number w entries ''highlight_alpha'' of
        None \<Rightarrow> 7 / 20 | Some n \<Rightarrow> min 1 (max 0 (json_node_get_double n))) \<and>
   base_alpha (wbcffi_init w entries) =
     (case configured_number w entries ''base_alpha'' of
        None \<Rightarrow> 1 | Some n \<Rightarrow> min 1 (max 0 (json_node_get_double n)))"
    by (simp only: wbcffi_init_config init_config_period_ms init_config_width_chars
        init_config_tick_ms init_config_pause_ms init_config_cycles
        init_config_highlight_alpha init_config_base_alpha simp_thms)
  from p wd t have examples:
    "(\<forall>v n. config_lookup entries ''period_ms'' = Some v \<longrightarrow>
      json_parser_load_from_data w v = Some n \<longrightarrow> n = JInt 50 \<or> n = JDouble 50 \<longrightarrow>
      period_ms (wbcffi_init w entries) = 200) \<and>
   (\<forall>v n. config_lookup entries ''width_chars'' = Some v \<longrightarrow>
      json_parser_load_from_data w v = Some n \<longrightarrow> n = JInt 50 \<or> n = JDouble 50 \<longrightarrow>
      width_chars (wbcffi_init w entries) = 20) \<and>
   (\<forall>v n. config_lookup entries ''tick_ms'' = Some v \<longrightarrow>
      json_parser_load_from_data w v = Some n \<longrightarrow> n = JInt 1 \<or> n = JDouble 1 \<longrightarrow>
      tick_ms (wbcffi_init w entries) = 5)"
    by blast
  from ranges examples vals show ?thesis by (simp only: simp_thms)
qed

theorem config_clamped_witness:
  "config_lookup [(''period_ms'', ''50''), (''width_chars'', ''50''), (''tick_ms'', ''1'')]
     ''tick_ms'' = Some ''1'' \<and>
   json_parser_load_from_data (test_world [(''50'', JInt 50), (''1'', JInt 1)] None 0) ''50'' =
     Some (JInt 50) \<and>
   period_ms (wbcffi_init (test_world [(''50'', JInt 50), (''1'', JInt 1)] None 0)
     [(''period_ms'', ''50''), (''width_chars'', ''50''), (''tick_ms'', ''1'')]) = 200 \<and>
   width_chars (wbcffi_init (test_world [(''50'', JInt 50), (''1'', JInt 1)] None 0)
     [(''period_ms'', ''50''), (''width_chars'', ''50''), (''tick_ms'', ''1'')]) = 20 \<and>
   tick_ms (wbcffi_init (test_world [(''50'', JInt 50), (''1'', JInt 1)] None 0)
     [(''period_ms'', ''50''), (''width_chars'', ''50''), (''tick_ms'', ''1'')]) = 5 \<and>
   pause_ms (wbcffi_init (test_world [(''50'', JInt 50), (''1'', JInt 1)] None 0)
     [(''period_ms'', ''50''), (''width_chars'', ''50''), (''tick_ms'', ''1'')]) = 500 \<and>
   tick_ms (wbcffi_init (test_world [(''1e30'', JDouble (10 ^ 30)), (''2'', JInt 2)] None 0)
     [(''tick_ms'', ''1e30''), (''width'', ''2''), (''highlight_alpha'', ''2''),
      (''cycles'', ''x'')]) = 5 \<and>
   width_chars (wbcffi_init (test_world [(''1e30'', JDouble (10 ^ 30)), (''2'', JInt 2)] None 0)
     [(''tick_ms'', ''1e30''), (''width'', ''2''), (''highlight_alpha'', ''2''),
      (''cycles'', ''x'')]) = 2 \<and>
   highlight_alpha (wbcffi_init (test_world [(''1e30'', JDouble (10 ^ 30)), (''2'', JInt 2)] None 0)
     [(''tick_ms'', ''1e30''), (''width'', ''2''), (''highlight_alpha'', ''2''),
      (''cycles'', ''x'')]) = 1 \<and>
   cycles (wbcffi_init (test_world [(''1e30'', JDouble (10 ^ 30)), (''2'', JInt 2)] None 0)
     [(''tick_ms'', ''1e30''), (''width'', ''2''), (''highlight_alpha'', ''2''),
      (''cycles'', ''x'')]) = 1"
  using config_clamped [of "test_world [(''50'', JInt 50), (''1'', JInt 1)] None 0"
      "[(''period_ms'', ''50''), (''width_chars'', ''50''), (''tick_ms'', ''1'')]"]
    config_clamped [of "test_world [(''1e30'', JDouble (10 ^ 30)), (''2'', JInt 2)] None 0"
      "[(''tick_ms'', ''1e30''), (''width'', ''2''), (''highlight_alpha'', ''2''),
        (''cycles'', ''x'')]"]
  by (simp add: test_world_simps configured_number_def double_to_gint64_def G_MININT64_def
      G_MAXINT64_def)

subsection \<open>The path of the cache file\<close>

lemma expand_user_path_tilde:
  "expand_user_path w (Some (CHR ''~'' # rest)) =
     Some (g_build_filename w [g_get_home_dir w, rest])"
  by (simp add: expand_user_path_def)

lemma expand_user_path_other:
  "\<forall>rest. p \<noteq> CHR ''~'' # rest \<Longrightarrow> expand_user_path w (Some p) = Some p"
  by (cases p) (simp_all add: expand_user_path_def)

lemma expand_user_path_Some: "\<exists>q. expand_user_path w (Some p) = Some q"
  by (simp add: expand_user_path_def)

lemma configure_cache_path_string:
  assumes "config_lookup entries ''cache_path'' = Some v"
    and "json_parser_load_from_data w v = Some (JString p)"
  shows "cache_path (configure_cache_path w entries inst) = expand_user_path w (Some p)"
proof -
  obtain q where q: "expand_user_path w (Some p) = Some q"
    using expand_user_path_Some by blast
  show ?thesis
    using assms q by (simp add: configure_cache_path_def Let_def parse_json_value_def)
qed

text \<open>
  C10. A configured \<^verbatim>\<open>cache_path\<close> that is a string is stored after
  \<open>expand_user_path\<close>. A path whose first character is the tilde becomes the home
  directory of the current user joined by \<^verbatim>\<open>g_build_filename\<close> with all that follows
  the tilde, so that \<^verbatim>\<open>~alice/x\<close> is the home directory joined with \<^verbatim>\<open>alice/x\<close>;
  any other path is stored as it is.
\<close>

theorem cache_path_expansion:
  "(\<forall>rest. expand_user_path w (Some (CHR ''~'' # rest)) =
            Some (g_build_filename w [g_get_home_dir w, rest])) \<and>
   expand_user_path w (Some ''~alice/x'') =
     Some (g_build_filename w [g_get_home_dir w, ''alice/x'']) \<and>
   ((\<forall>rest. p \<noteq> CHR ''~'' # rest) \<longrightarrow> expand_user_path w (Some p) = Some p) \<and>
   (\<forall>v q. config_lookup entries ''cache_path'' = Some v \<longrightarrow>
      json_parser_load_from_data w v = Some (JString q) \<longrightarrow>
      cache_path (wbcffi_init w entries) = expand_user_path w (Some q))"
proof -
  have "cache_path (wbcffi_init w entries) = expand_user_path w (Some q)"
    if "config_lookup entries ''cache_path'' = Some v"
      "json_parser_load_from_data w v = Some (JString q)" for v q
    using configure_cache_path_string [OF that]
    by (simp add: wbcffi_init_config init_config_def init_clamp_fields configure_keeps)
  then show ?thesis
    using expand_user_path_other [of p w] by (simp add: expand_user_path_tilde)
qed

theorem cache_path_expansion_witness:
  \<open>cache_path (wbcffi_init (test_world [(''"~alice/x"'', JString ''~alice/x'')] None 0)
     [(''cache_path'', ''"~alice/x"'')]) = Some ''/home/u/alice/x'' \<and>
   expand_user_path (test_world [(''"~alice/x"'', JString ''~alice/x'')] None 0) (Some ''~/x'') =
     Some ''/home/u/x'' \<and>
   expand_user_path (test_world [(''"~alice/x"'', JString ''~alice/x'')] None 0)
     (Some ''/tmp/x'') = Some ''/tmp/x''\<close>
  using cache_path_expansion [of \<open>test_world [(''"~alice/x"'', JString ''~alice/x'')] None 0\<close>
      "''/tmp/x''" \<open>[(''cache_path'', ''"~alice/x"'')]\<close>]
  by (simp add: test_world_simps)

section \<open>The text that the renderer sees\<close>

lemma on_draw_no_text: "text_plain inst = None \<Longrightarrow> on_draw w inst = (False, [])"
  by (simp add: on_draw_def)

lemma wbcffi_init_unreadable:
  "text_plain (wbcffi_init (test_world [] None 0) []) = None"
  by (simp add: wbcffi_init_def Let_def init_config_def configure_cache_path_def
    configure_period_ms_def configure_width_chars_def configure_pause_ms_def
    configure_cycles_def configure_tick_ms_def configure_base_color_def
    configure_highlight_color_def configure_highlight_alpha_def configure_base_alpha_def
    init_clamp_def init_defaults_def g_new0_def setup_monitor_def load_cache_def
    read_cache_file_def test_world_simps)

lemma load_cache_ok_iff:
  "fst (load_cache w inst) =
     (\<exists>contents obj. read_cache_file w inst = Some contents \<and>
        json_parser_load_from_data w contents = Some (JObject obj))"
proof (cases rule: load_cache_cases [of w inst])
  case failed
  have "\<not> (\<exists>contents obj. read_cache_file w inst = Some contents \<and>
        json_parser_load_from_data w contents = Some (JObject obj))"
  proof
    assume "\<exists>contents obj. read_cache_file w inst = Some contents \<and>
        json_parser_load_from_data w contents = Some (JObject obj)"
    then obtain contents obj where "read_cache_file w inst = Some contents"
      and "json_parser_load_from_data w contents = Some (JObject obj)" by blast
    then have "fst (load_cache w inst)" by (rule load_cache_success(1))
    with failed show False by simp
  qed
  with failed show ?thesis by simp
next
  case (loaded contents obj)
  then show ?thesis using load_cache_success(1) [OF loaded] by blast
qed

lemma load_cache_ok_cache_path:
  "cache_path a = cache_path b \<Longrightarrow> fst (load_cache w a) = fst (load_cache w b)"
  by (simp add: load_cache_ok_iff read_cache_file_def)

lemma load_cache_text_None:
  "(text_plain (snd (load_cache w inst)) = None) =
     (text_plain inst = None \<and> \<not> fst (load_cache w inst))"
proof (cases rule: load_cache_cases [of w inst])
  case failed
  then show ?thesis by simp
next
  case (loaded contents obj)
  then show ?thesis
    using load_cache_success(1,2) [OF loaded] by simp
qed

lemma refreshes_text_None:
  "(text_plain (refreshes ws inst) = None) =
     (text_plain inst = None \<and> \<not> some_refresh_loads ws inst)"
proof (induction ws arbitrary: inst)
  case Nil
  show ?case by simp
next
  case (Cons w ws)
  show ?case
    by (simp add: Cons.IH) (auto simp add: wbcffi_refresh_def load_cache_text_None)
qed

lemma configure_keeps_text:
  "text_plain (configure_cache_path w entries inst) = text_plain inst"
  "text_plain (configure_period_ms w entries inst) = text_plain inst"
  "text_plain (configure_width_chars w entries inst) = text_plain inst"
  "text_plain (configure_pause_ms w entries inst) = text_plain inst"
  "text_plain (configure_cycles w entries inst) = text_plain inst"
  "text_plain (configure_tick_ms w entries inst) = text_plain inst"
  "text_plain (configure_base_color w entries inst) = text_plain inst"
  "text_plain (configure_highlight_color w entries inst) = text_plain inst"
  "text_plain (configure_highlight_alpha w entries inst) = text_plain inst"
  "text_plain (configure_base_alpha w entries inst) = text_plain inst"
  by (simp_all add: configure_cache_path_def configure_period_ms_def configure_width_chars_def
      configure_pause_ms_def configure_cycles_def configure_tick_ms_def configure_base_color_def
      configure_highlight_color_def configure_highlight_alpha_def configure_base_alpha_def
      Let_def split: option.splits json.splits)

lemma init_config_text: "text_plain (init_config w entries) = None"
  by (simp add: init_config_def init_clamp_def Let_def configure_keeps_text
      init_defaults_def g_new0_def)

lemma wbcffi_init_text_None:
  "(text_plain (wbcffi_init w entries) = None) = (\<not> fst (load_cache w (init_config w entries)))"
proof -
  define pre where "pre = snd (setup_monitor w
      (init_config w entries\<lparr>container_classes := gtk_box_style_classes w,
                             start_time_us := g_get_monotonic_time w\<rparr>))"
  have t: "text_plain pre = None"
    by (simp add: pre_def setup_monitor_def Let_def init_config_text)
  have c: "cache_path pre = cache_path (init_config w entries)"
    by (simp add: pre_def setup_monitor_def Let_def)
  have "text_plain (wbcffi_init w entries) = text_plain (snd (load_cache w pre))"
    by (simp add: wbcffi_init_def Let_def pre_def)
  then show ?thesis
    using t load_cache_ok_cache_path [OF c, of w] by (simp add: load_cache_text_None)
qed

lemma configure_cache_path_Some:
  "cache_path (configure_cache_path w entries inst) \<noteq> None"
  by (simp add: configure_cache_path_def Let_def split: option.splits)

lemma init_config_cache_path_Some: "cache_path (init_config w entries) \<noteq> None"
  by (simp add: init_config_def init_clamp_fields configure_keeps configure_cache_path_Some)

lemma wbcffi_init_cache_path_Some: "cache_path (wbcffi_init w entries) \<noteq> None"
  by (simp add: wbcffi_init_config init_config_cache_path_Some)

lemma wbcffi_refresh_cache_path: "cache_path (wbcffi_refresh w inst) = cache_path inst"
  by (simp add: wbcffi_refresh_def load_cache_config)

lemma read_test_world_path:
  "cache_path inst \<noteq> None \<Longrightarrow> read_cache_file (test_world table contents now) inst = contents"
  "cache_path inst \<noteq> None \<Longrightarrow> read_cache_file (file_world str rt now) inst = Some str"
  by (auto simp add: read_cache_file_def file_world_def test_world_simps)

text \<open>
  C2 says that the renderer never sees an absent or an empty text. It does. When the
  first load fails, \<open>wbcffi_init\<close> leaves the text absent and \<open>on_draw\<close> is called
  with it (its first statement is the test for that case); and a cache whose
  \<^verbatim>\<open>text\<close> member is the empty string is stored as the empty text.
\<close>

theorem text_absent_or_empty_counterexample:
  \<open>text_plain (wbcffi_init (test_world [] None 0) []) = None \<and>
   on_draw (test_world [] None 33000) (wbcffi_init (test_world [] None 0) []) = (False, []) \<and>
   text_plain (snd (load_cache
     (file_world ''{"text":""}'' (JObject [(''text'', JString '''')]) 5000) test_instance)) =
     Some []\<close>
  using load_cache_success(2) [OF file_world_simps(1,2), of \<open>''{"text":""}''\<close>
      "[(''text'', JString '''')]" 5000]
  by (simp add: wbcffi_init_unreadable on_draw_no_text)

text \<open>
  C2, amended. After a load that succeeds the text is present: it is the \<^verbatim>\<open>text\<close>
  member of the cache when that member is a string, and the placeholder, which is not
  empty, when the member is missing or is not a string. Until a load has succeeded the
  text is absent: it is absent in the instance that \<open>wbcffi_init\<close> has configured, it
  is absent after \<open>wbcffi_init\<close> exactly when the first load fails, a load that fails
  leaves it as it was, and after any number of refreshes it is absent exactly when
  neither the first load nor the load of any refresh has succeeded. While the text is
  absent, \<open>on_draw\<close> returns \<^verbatim>\<open>FALSE\<close> and paints nothing.
\<close>

theorem text_after_load:
  assumes "read_cache_file w inst = Some contents"
    and "json_parser_load_from_data w contents = Some (JObject obj)"
  shows "text_plain (snd (load_cache w inst)) =
           Some (case map_of obj ''text'' of Some (JString s) \<Rightarrow> s | _ \<Rightarrow> placeholder_text) \<and>
         placeholder_text \<noteq> [] \<and>
         (\<forall>w' inst'. text_plain inst' = None \<longrightarrow> on_draw w' inst' = (False, [])) \<and>
         text_plain (init_config w0 entries) = None \<and>
         (text_plain (wbcffi_init w0 entries) = None) =
           (\<not> fst (load_cache w0 (init_config w0 entries))) \<and>
         (\<forall>w' inst'. \<not> fst (load_cache w' inst') \<longrightarrow>
            text_plain (snd (load_cache w' inst')) = text_plain inst') \<and>
         (text_plain (refreshes ws (wbcffi_init w0 entries)) = None) =
           (\<not> fst (load_cache w0 (init_config w0 entries)) \<and>
            \<not> some_refresh_loads ws (wbcffi_init w0 entries))"
proof -
  have keep: "text_plain (snd (load_cache w' inst')) = text_plain inst'"
    if "\<not> fst (load_cache w' inst')" for w' inst'
    using that by (cases rule: load_cache_cases [of w' inst']) (simp_all add: load_cache_success(1))
  have old: "text_plain (snd (load_cache w inst)) =
           Some (case map_of obj ''text'' of Some (JString s) \<Rightarrow> s | _ \<Rightarrow> placeholder_text) \<and>
         placeholder_text \<noteq> [] \<and>
         (\<forall>w' inst'. text_plain inst' = None \<longrightarrow> on_draw w' inst' = (False, []))"
    using load_cache_success(2) [OF assms] by (simp add: placeholder_text_def on_draw_no_text)
  have run: "(text_plain (refreshes ws (wbcffi_init w0 entries)) = None) =
           (\<not> fst (load_cache w0 (init_config w0 entries)) \<and>
            \<not> some_refresh_loads ws (wbcffi_init w0 entries))"
    by (simp only: refreshes_text_None wbcffi_init_text_None)
  from old keep run show ?thesis
    using init_config_text [of w0 entries] wbcffi_init_text_None [of w0 entries] by blast
qed

theorem text_after_load_witness:
  \<open>text_plain (snd (load_cache (file_world ''{}'' (JObject []) 5000) test_instance)) =
     Some placeholder_text \<and>
   text_plain (snd (load_cache (file_world ''{"text":7}'' (JObject [(''text'', JInt 7)]) 5000)
     test_instance)) = Some placeholder_text \<and>
   on_draw (test_world [] None 0) (test_instance\<lparr>text_plain := None\<rparr>) = (False, []) \<and>
   \<not> fst (load_cache (test_world [] None 0) (init_config (test_world [] None 0) [])) \<and>
   text_plain (wbcffi_init (test_world [] None 0) []) = None \<and>
   text_plain (refreshes [test_world [] None 7] (wbcffi_init (test_world [] None 0) [])) =
     None \<and>
   text_plain (refreshes [test_world [] None 7, file_world ''{}'' (JObject []) 9]
     (wbcffi_init (test_world [] None 0) [])) \<noteq> None\<close>
  using text_after_load [OF file_world_simps(1,2), of \<open>''{}''\<close> "[]" 5000
      "test_world [] None 0" "[]" "[test_world [] None 7]"]
    text_after_load [OF file_world_simps(1,2), of \<open>''{"text":7}''\<close> "[(''text'', JInt 7)]" 5000
      "test_world [] None 0" "[]"
      "[test_world [] None 7, file_world ''{}'' (JObject []) 9]"]
  by (simp add: load_cache_ok_iff read_test_world_path init_config_cache_path_Some
      wbcffi_init_cache_path_Some wbcffi_refresh_cache_path file_world_simps test_world_simps)

end
